theory Spec2Isabelle
  imports Main "HOL-Library.Word"
begin

section \<open>Memory\<close>

text \<open>
  The C code works on pointers into allocated regions. A pointer is a block
  number together with a byte offset into the block; block 0 is never
  allocated, so \<open>(0, 0)\<close> is the null pointer. The heap lists, per block
  number, the object living there (\<open>None\<close> for a block that is not
  allocated). The allocator is unbounded: \<open>malloc\<close> always hands out a block,
  the lowest free one, so a released block number can be handed out again.

  Every function that touches memory returns an \<open>option\<close>: \<open>None\<close> stands
  for behaviour that C leaves undefined (reading a block that is not live,
  copying past the end of a region, releasing a pointer that was not
  allocated, reading a union through a member it does not hold).
\<close>

type_synonym u8 = "8 word"
type_synonym u16 = "16 word"
type_synonym u32 = "32 word"
type_synonym u64 = "64 word"

text \<open>
  An \<open>int32_t\<close> is a 32-bit word, read as a signed number with \<open>sint\<close>. A
  count stored into an \<open>int32_t\<close> keeps its low 32 bits (\<open>word_of_int\<close>).
\<close>

type_synonym int32_t = "32 word"

type_synonym ptr = "nat \<times> int"

abbreviation NULL :: ptr where
  "NULL \<equiv> (0, 0)"

record timeval =
  tv_sec :: u64
  tv_usec :: u64

record prrte_byte_object_t =
  bo_size :: u32
  bo_bytes :: ptr

datatype cell =
    C_bytes "u8 list"
  | C_str string
  | C_bool bool
  | C_uint8 u8
  | C_size u64
  | C_pid u32
  | C_int u32
  | C_int8 u8
  | C_int16 u16
  | C_int32 u32
  | C_int64 u64
  | C_uint u32
  | C_uint16 u16
  | C_uint32 u32
  | C_uint64 u64
  | C_float u32
  | C_timeval timeval
  | C_vpid u32
  | C_bo prrte_byte_object_t

type_synonym heap = "cell option list"

definition cell_at :: "heap \<Rightarrow> nat \<Rightarrow> cell option" where
  "cell_at h b = (if b = 0 \<or> length h < b then None else h ! (b - 1))"

fun first_free :: "heap \<Rightarrow> nat" where
  "first_free [] = 0"
| "first_free (None # h) = 0"
| "first_free (Some c # h) = Suc (first_free h)"

definition malloc :: "heap \<Rightarrow> cell \<Rightarrow> ptr \<times> heap" where
  "malloc h c =
     (let i = first_free h
      in ((Suc i, 0), if i < length h then h[i := Some c] else h @ [Some c]))"

definition free :: "heap \<Rightarrow> ptr \<Rightarrow> heap option" where
  "free h p =
     (if p = NULL then Some h
      else if snd p = 0 \<and> cell_at h (fst p) \<noteq> None then Some (h[fst p - 1 := None])
      else None)"

definition set_cell :: "heap \<Rightarrow> nat \<Rightarrow> cell \<Rightarrow> heap option" where
  "set_cell h b c = (if cell_at h b = None then None else Some (h[b - 1 := Some c]))"

definition ptr_add :: "ptr \<Rightarrow> int \<Rightarrow> ptr" where
  "ptr_add p n = (fst p, snd p + n)"

definition ptr_diff :: "ptr \<Rightarrow> ptr \<Rightarrow> int option" where
  "ptr_diff p q = (if fst p = fst q then Some (snd p - snd q) else None)"

definition read_bytes :: "heap \<Rightarrow> ptr \<Rightarrow> int \<Rightarrow> u8 list option" where
  "read_bytes h p n =
     (case cell_at h (fst p) of
        Some (C_bytes xs) \<Rightarrow>
          if 0 \<le> snd p \<and> 0 \<le> n \<and> snd p + n \<le> int (length xs)
          then Some (take (nat n) (drop (nat (snd p)) xs))
          else None
      | _ \<Rightarrow> None)"

definition write_bytes :: "heap \<Rightarrow> ptr \<Rightarrow> u8 list \<Rightarrow> heap option" where
  "write_bytes h p ys =
     (case cell_at h (fst p) of
        Some (C_bytes xs) \<Rightarrow>
          if 0 \<le> snd p \<and> snd p + int (length ys) \<le> int (length xs)
          then set_cell h (fst p)
                 (C_bytes (take (nat (snd p)) xs @ ys @ drop (nat (snd p) + length ys) xs))
          else None
      | _ \<Rightarrow> None)"

definition memcpy :: "heap \<Rightarrow> ptr \<Rightarrow> ptr \<Rightarrow> int \<Rightarrow> heap option" where
  "memcpy h dst src n =
     (case read_bytes h src n of
        None \<Rightarrow> None
      | Some ys \<Rightarrow> write_bytes h dst ys)"

section \<open>DSS buffers\<close>

datatype rc =
    PRRTE_SUCCESS
  | PRRTE_ERR_BAD_PARAM
  | PRRTE_ERR_BUFFER
  | PRRTE_ERR_OUT_OF_RESOURCE
  | PRRTE_ERR_NOT_SUPPORTED
  | PRRTE_ERR_TYPE_MISMATCH

text \<open>
  The two counts of a buffer are of type \<open>size_t\<close>; they are kept as the
  numbers they stand for. Where the code moves a count into an \<open>int32_t\<close>
  (the output \<open>bytes_used\<close> of \<open>prrte_dss_unload\<close>, the local \<open>bytes_left\<close> of
  \<open>prrte_dss_copy_payload\<close>) it is narrowed, and where it uses an \<open>int32_t\<close>
  as a count or as a pointer offset its signed value is taken.
\<close>

record prrte_buffer_t =
  buf_type :: nat
  base_ptr :: ptr
  pack_ptr :: ptr
  unpack_ptr :: ptr
  bytes_allocated :: int
  bytes_used :: int

text \<open>
  Buffers are passed by pointer and \<open>prrte_dss_copy_payload\<close> takes two of
  them, which may be the same object. Buffer objects therefore live in a
  store of their own, indexed by the buffer's address; address 0 is the null
  buffer pointer.
\<close>

type_synonym bufstore = "nat \<Rightarrow> prrte_buffer_t"

text \<open>
  Modelled from the spec: the constructor that \<open>PRRTE_CONSTRUCT\<close> runs for a
  \<open>prrte_buffer_t\<close> is not in \<open>dss_load_unload.c\<close>. The spec says a buffer is
  "constructed empty": null base and cursors and zero counts, with the
  process-wide default buffer type (the parameter \<open>dflt\<close>).
\<close>

definition prrte_buffer_construct :: "nat \<Rightarrow> prrte_buffer_t" where
  "prrte_buffer_construct dflt =
     \<lparr>buf_type = dflt, base_ptr = NULL, pack_ptr = NULL, unpack_ptr = NULL,
      bytes_allocated = 0, bytes_used = 0\<rparr>"

text \<open>
  Modelled from the spec: the destructor that \<open>PRRTE_DESTRUCT\<close> runs for a
  \<open>prrte_buffer_t\<close> is not in \<open>dss_load_unload.c\<close>. The spec says a buffer
  "owns its backing memory exclusively until explicitly transferred out" and
  that its "prior backing memory is never left half-owned": destruction
  releases the backing region when the buffer still holds one.
\<close>

definition prrte_buffer_destruct :: "heap \<Rightarrow> prrte_buffer_t \<Rightarrow> heap option" where
  "prrte_buffer_destruct h b =
     (if base_ptr b \<noteq> NULL then free h (base_ptr b) else Some h)"

text \<open>
  The label \<open>cleanup\<close> of \<open>prrte_dss_unload\<close>: destruct and construct the
  buffer in place, return success with the two output slots as set.
\<close>

definition unload_cleanup ::
  "nat \<Rightarrow> heap \<Rightarrow> bufstore \<Rightarrow> nat \<Rightarrow> ptr \<Rightarrow> int32_t
     \<Rightarrow> (rc \<times> heap \<times> bufstore \<times> ptr option \<times> int32_t option) option" where
  "unload_cleanup dflt h bs buffer pl n =
     (case prrte_buffer_destruct h (bs buffer) of
        None \<Rightarrow> None
      | Some h' \<Rightarrow>
          Some (PRRTE_SUCCESS, h', bs(buffer := prrte_buffer_construct dflt),
                Some pl, Some n))"

text \<open>
  \<open>prrte_dss_unload(buffer, payload, bytes_used)\<close>. The two output slots are
  \<open>None\<close> when the caller passed a null slot pointer and \<open>Some v\<close> when the
  slot exists and holds \<open>v\<close>; the result carries the slots as the call leaves
  them. The code checks \<open>payload\<close> but writes through \<open>bytes_used\<close> unchecked.
  The count goes through the \<open>int32_t\<close> that \<open>bytes_used\<close> points to: the test
  for zero, the size given to \<open>malloc\<close> and the length given to \<open>memcpy\<close> all
  read it back from there. A negative value read back is a size that no
  allocation satisfies: \<open>malloc\<close> returns null and \<open>memcpy\<close> writes through it.
\<close>

definition prrte_dss_unload ::
  "nat \<Rightarrow> heap \<Rightarrow> bufstore \<Rightarrow> nat \<Rightarrow> ptr option \<Rightarrow> int32_t option
     \<Rightarrow> (rc \<times> heap \<times> bufstore \<times> ptr option \<times> int32_t option) option" where
  "prrte_dss_unload dflt h bs buffer payload bytes_used_out =
     (if buffer = 0 then Some (PRRTE_ERR_BAD_PARAM, h, bs, payload, bytes_used_out)
      else if payload = None then Some (PRRTE_ERR_BAD_PARAM, h, bs, payload, bytes_used_out)
      else if bytes_used_out = None then None
      else
        let b = bs buffer in
        if base_ptr b = NULL \<or> bytes_used b = 0
        then Some (PRRTE_SUCCESS, h, bs, Some NULL, Some 0)
        else if unpack_ptr b = base_ptr b
        then unload_cleanup dflt h
               (bs(buffer := b\<lparr>base_ptr := NULL, bytes_used := 0\<rparr>)) buffer
               (base_ptr b) (word_of_int (bytes_used b))
        else
          (case ptr_diff (unpack_ptr b) (base_ptr b) of
             None \<Rightarrow> None
           | Some d \<Rightarrow>
               let n = (word_of_int (bytes_used b - d) :: int32_t) in
               if n = 0 then unload_cleanup dflt h bs buffer NULL 0
               else if sint n < 0 then None
               else
                 let (p, h1) = malloc h (C_bytes (replicate (nat (sint n)) 0)) in
                 (case memcpy h1 p (unpack_ptr b) (sint n) of
                    None \<Rightarrow> None
                  | Some h2 \<Rightarrow> unload_cleanup dflt h2 bs buffer p n)))"

text \<open>
  \<open>prrte_dss_load(buffer, payload, bytes_used)\<close>, the length an \<open>int32_t\<close>. A
  negative length is kept as the negative number (C stores it modulo the range
  of \<open>size_t\<close>, which narrows back to the same \<open>int32_t\<close>).
\<close>

definition prrte_dss_load ::
  "nat \<Rightarrow> heap \<Rightarrow> bufstore \<Rightarrow> nat \<Rightarrow> ptr \<Rightarrow> int32_t
     \<Rightarrow> (rc \<times> heap \<times> bufstore) option" where
  "prrte_dss_load dflt h bs buffer payload n =
     (if buffer = 0 then Some (PRRTE_ERR_BAD_PARAM, h, bs)
      else
        (case prrte_buffer_destruct h (bs buffer) of
           None \<Rightarrow> None
         | Some h1 \<Rightarrow>
             let b = prrte_buffer_construct dflt in
             if payload = NULL then Some (PRRTE_SUCCESS, h1, bs(buffer := b))
             else Some (PRRTE_SUCCESS, h1,
                        bs(buffer := b\<lparr>base_ptr := payload,
                                        pack_ptr := ptr_add payload (sint n),
                                        unpack_ptr := payload,
                                        bytes_allocated := sint n,
                                        bytes_used := sint n\<rparr>))))"

text \<open>
  \<open>realloc\<close> always moves: a new block receives the old bytes (cut or
  zero-filled to the new size) and the old block is released.
\<close>

definition realloc :: "heap \<Rightarrow> ptr \<Rightarrow> int \<Rightarrow> (ptr \<times> heap) option" where
  "realloc h p n =
     (if n < 0 then None
      else if p = NULL then Some (malloc h (C_bytes (replicate (nat n) 0)))
      else
        (case cell_at h (fst p) of
           Some (C_bytes xs) \<Rightarrow>
             let (q, h1) = malloc h (C_bytes (take (nat n) xs @ replicate (nat n - length xs) 0))
             in (case free h1 p of None \<Rightarrow> None | Some h2 \<Rightarrow> Some (q, h2))
         | _ \<Rightarrow> None))"

text \<open>
  Modelled from the spec: \<open>prrte_dss_buffer_extend\<close> is declared in
  \<open>dss_internal.h\<close> and defined outside \<open>dss_load_unload.c\<close>. The spec says
  \<open>copy_payload\<close> works "by growing dest's backing region and appending":
  when the spare capacity is too small the region is reallocated to hold the
  used bytes and the bytes to add, the cursors keep their offsets, and the
  pack cursor is returned as the place to write to.
\<close>

definition prrte_dss_buffer_extend ::
  "heap \<Rightarrow> prrte_buffer_t \<Rightarrow> int \<Rightarrow> (ptr \<times> heap \<times> prrte_buffer_t) option" where
  "prrte_dss_buffer_extend h b bytes_to_add =
     (if bytes_to_add \<le> bytes_allocated b - bytes_used b then Some (pack_ptr b, h, b)
      else
        (case (ptr_diff (pack_ptr b) (base_ptr b), ptr_diff (unpack_ptr b) (base_ptr b)) of
           (Some pack_offset, Some unpack_offset) \<Rightarrow>
             let to_alloc = bytes_used b + bytes_to_add in
             (case realloc h (base_ptr b) to_alloc of
                None \<Rightarrow> None
              | Some (q, h1) \<Rightarrow>
                  let b1 = b\<lparr>base_ptr := q,
                              pack_ptr := ptr_add q pack_offset,
                              unpack_ptr := ptr_add q unpack_offset,
                              bytes_allocated := to_alloc\<rparr>
                  in Some (pack_ptr b1, h1, b1))
         | _ \<Rightarrow> None))"

text \<open>
  \<open>prrte_dss_copy_payload(dest, src)\<close>. The type of \<open>dest\<close> is set before the
  number of unread bytes is looked at. That number is held in the local
  \<open>int32_t bytes_left\<close>: the test for zero, the request to extend \<open>dest\<close>, the
  length given to \<open>memcpy\<close> and the bookkeeping all use the narrowed value.
  A negative value is a length that no region has: \<open>memcpy\<close> has no result
  there.
\<close>

definition prrte_dss_copy_payload ::
  "heap \<Rightarrow> bufstore \<Rightarrow> nat \<Rightarrow> nat \<Rightarrow> (rc \<times> heap \<times> bufstore) option" where
  "prrte_dss_copy_payload h bs dest src =
     (if dest = 0 \<or> src = 0 then Some (PRRTE_ERR_BAD_PARAM, h, bs)
      else if bytes_used (bs dest) \<noteq> 0 \<and> buf_type (bs dest) \<noteq> buf_type (bs src)
      then Some (PRRTE_ERR_BUFFER, h, bs)
      else
        let bs1 = bs(dest := (bs dest)\<lparr>buf_type := buf_type (bs src)\<rparr>) in
        (case ptr_diff (unpack_ptr (bs1 src)) (base_ptr (bs1 src)) of
           None \<Rightarrow> None
         | Some d \<Rightarrow>
             let bytes_left = (word_of_int (bytes_used (bs1 src) - d) :: int32_t) in
             if bytes_left = 0 then Some (PRRTE_SUCCESS, h, bs1)
             else
               (case prrte_dss_buffer_extend h (bs1 dest) (sint bytes_left) of
                  None \<Rightarrow> None
                | Some (dst_ptr, h2, d2) \<Rightarrow>
                    let bs2 = bs1(dest := d2) in
                    if dst_ptr = NULL then Some (PRRTE_ERR_OUT_OF_RESOURCE, h2, bs2)
                    else
                      (case memcpy h2 dst_ptr (unpack_ptr (bs2 src)) (sint bytes_left) of
                         None \<Rightarrow> None
                       | Some h3 \<Rightarrow>
                           Some (PRRTE_SUCCESS, h3,
                                 bs2(dest := (bs2 dest)
                                       \<lparr>bytes_used := bytes_used (bs2 dest) + sint bytes_left,
                                        pack_ptr := ptr_add (pack_ptr (bs2 dest))
                                                      (sint bytes_left)\<rparr>))))))"

text \<open>
  The data-model invariant of a buffer, read on the heap: a buffer without a
  region has null cursors and zero counts; otherwise \<open>base\<close> is the start of a
  live byte region of at least \<open>bytes_allocated\<close> bytes, \<open>bytes_used\<close> is at
  most \<open>bytes_allocated\<close>, the pack cursor stands \<open>bytes_used\<close> bytes past the
  base, and the unpack cursor lies between the two.
\<close>

definition buffer_ok :: "heap \<Rightarrow> prrte_buffer_t \<Rightarrow> bool" where
  "buffer_ok h b =
     (if base_ptr b = NULL
      then pack_ptr b = NULL \<and> unpack_ptr b = NULL \<and> bytes_allocated b = 0 \<and> bytes_used b = 0
      else fst (base_ptr b) \<noteq> 0 \<and> snd (base_ptr b) = 0
         \<and> (case cell_at h (fst (base_ptr b)) of
               Some (C_bytes xs) \<Rightarrow> bytes_allocated b \<le> int (length xs)
             | _ \<Rightarrow> False)
         \<and> 0 \<le> bytes_used b \<and> bytes_used b \<le> bytes_allocated b
         \<and> pack_ptr b = ptr_add (base_ptr b) (bytes_used b)
         \<and> fst (unpack_ptr b) = fst (base_ptr b)
         \<and> 0 \<le> snd (unpack_ptr b) \<and> snd (unpack_ptr b) \<le> bytes_used b)"

text \<open>The packed bytes of a buffer, and the part of them not yet unpacked.\<close>

definition packed :: "heap \<Rightarrow> prrte_buffer_t \<Rightarrow> u8 list" where
  "packed h b =
     (case cell_at h (fst (base_ptr b)) of
        Some (C_bytes xs) \<Rightarrow> take (nat (bytes_used b)) xs
      | _ \<Rightarrow> [])"

definition unread :: "heap \<Rightarrow> prrte_buffer_t \<Rightarrow> u8 list" where
  "unread h b = drop (nat (snd (unpack_ptr b))) (packed h b)"


text \<open>
  Two buffers are separate when they are distinct, non-null objects that
  satisfy the invariant and do not share a backing region.
\<close>

definition separate :: "heap \<Rightarrow> bufstore \<Rightarrow> nat \<Rightarrow> nat \<Rightarrow> bool" where
  "separate h bs dest src =
     (dest \<noteq> 0 \<and> src \<noteq> 0 \<and> dest \<noteq> src
      \<and> buffer_ok h (bs dest) \<and> buffer_ok h (bs src)
      \<and> (base_ptr (bs dest) = NULL \<or> fst (base_ptr (bs dest)) \<noteq> fst (base_ptr (bs src))))"

section \<open>Typed values\<close>

text \<open>
  The type tag is a small integer. The constants that the three switch
  statements of \<open>dss_load_unload.c\<close> name are constructors; every other tag
  value is \<open>PRRTE_OTHER k\<close>.
\<close>

datatype prrte_data_type_t =
    PRRTE_BOOL | PRRTE_BYTE | PRRTE_STRING | PRRTE_SIZE | PRRTE_PID
  | PRRTE_INT | PRRTE_INT8 | PRRTE_INT16 | PRRTE_INT32 | PRRTE_INT64
  | PRRTE_UINT | PRRTE_UINT8 | PRRTE_UINT16 | PRRTE_UINT32 | PRRTE_UINT64
  | PRRTE_BYTE_OBJECT | PRRTE_FLOAT | PRRTE_TIMEVAL | PRRTE_PTR | PRRTE_VPID
  | PRRTE_OTHER nat

text \<open>
  The union \<open>data\<close> of a \<open>prrte_value_t\<close>: one constructor per member that the
  code writes or reads, and \<open>U_zero\<close> for the union after
  \<open>memset(&kv->data, 0, sizeof(kv->data))\<close>. Floats are kept as their 32 bits.
\<close>

datatype payload =
    U_zero
  | U_flag bool | U_byte u8 | U_string ptr | U_size u64 | U_pid u32
  | U_integer u32 | U_int8 u8 | U_int16 u16 | U_int32 u32 | U_int64 u64
  | U_uint u32 | U_uint8 u8 | U_uint16 u16 | U_uint32 u32 | U_uint64 u64
  | U_bo prrte_byte_object_t | U_fval u32 | U_tv timeval | U_ptr ptr | U_vpid u32

record prrte_value_t =
  key :: ptr
  type :: prrte_data_type_t
  data :: payload

text \<open>
  Reading a member of the union: defined when the union holds that member,
  and on the zeroed union, where every member reads as zero.
\<close>

definition get_flag :: "payload \<Rightarrow> bool option" where
  "get_flag u = (case u of U_zero \<Rightarrow> Some False | U_flag v \<Rightarrow> Some v | _ \<Rightarrow> None)"

definition get_byte :: "payload \<Rightarrow> u8 option" where
  "get_byte u = (case u of U_zero \<Rightarrow> Some 0 | U_byte v \<Rightarrow> Some v | _ \<Rightarrow> None)"

definition get_string :: "payload \<Rightarrow> ptr option" where
  "get_string u = (case u of U_zero \<Rightarrow> Some NULL | U_string v \<Rightarrow> Some v | _ \<Rightarrow> None)"

definition get_size :: "payload \<Rightarrow> u64 option" where
  "get_size u = (case u of U_zero \<Rightarrow> Some 0 | U_size v \<Rightarrow> Some v | _ \<Rightarrow> None)"

definition get_pid :: "payload \<Rightarrow> u32 option" where
  "get_pid u = (case u of U_zero \<Rightarrow> Some 0 | U_pid v \<Rightarrow> Some v | _ \<Rightarrow> None)"

definition get_integer :: "payload \<Rightarrow> u32 option" where
  "get_integer u = (case u of U_zero \<Rightarrow> Some 0 | U_integer v \<Rightarrow> Some v | _ \<Rightarrow> None)"

definition get_int8 :: "payload \<Rightarrow> u8 option" where
  "get_int8 u = (case u of U_zero \<Rightarrow> Some 0 | U_int8 v \<Rightarrow> Some v | _ \<Rightarrow> None)"

definition get_int16 :: "payload \<Rightarrow> u16 option" where
  "get_int16 u = (case u of U_zero \<Rightarrow> Some 0 | U_int16 v \<Rightarrow> Some v | _ \<Rightarrow> None)"

definition get_int32 :: "payload \<Rightarrow> u32 option" where
  "get_int32 u = (case u of U_zero \<Rightarrow> Some 0 | U_int32 v \<Rightarrow> Some v | _ \<Rightarrow> None)"

definition get_int64 :: "payload \<Rightarrow> u64 option" where
  "get_int64 u = (case u of U_zero \<Rightarrow> Some 0 | U_int64 v \<Rightarrow> Some v | _ \<Rightarrow> None)"

definition get_uint :: "payload \<Rightarrow> u32 option" where
  "get_uint u = (case u of U_zero \<Rightarrow> Some 0 | U_uint v \<Rightarrow> Some v | _ \<Rightarrow> None)"

definition get_uint8 :: "payload \<Rightarrow> u8 option" where
  "get_uint8 u = (case u of U_zero \<Rightarrow> Some 0 | U_uint8 v \<Rightarrow> Some v | _ \<Rightarrow> None)"

definition get_uint16 :: "payload \<Rightarrow> u16 option" where
  "get_uint16 u = (case u of U_zero \<Rightarrow> Some 0 | U_uint16 v \<Rightarrow> Some v | _ \<Rightarrow> None)"

definition get_uint32 :: "payload \<Rightarrow> u32 option" where
  "get_uint32 u = (case u of U_zero \<Rightarrow> Some 0 | U_uint32 v \<Rightarrow> Some v | _ \<Rightarrow> None)"

definition get_uint64 :: "payload \<Rightarrow> u64 option" where
  "get_uint64 u = (case u of U_zero \<Rightarrow> Some 0 | U_uint64 v \<Rightarrow> Some v | _ \<Rightarrow> None)"

definition get_bo :: "payload \<Rightarrow> prrte_byte_object_t option" where
  "get_bo u = (case u of U_zero \<Rightarrow> Some \<lparr>bo_size = 0, bo_bytes = NULL\<rparr>
                       | U_bo v \<Rightarrow> Some v | _ \<Rightarrow> None)"

definition get_fval :: "payload \<Rightarrow> u32 option" where
  "get_fval u = (case u of U_zero \<Rightarrow> Some 0 | U_fval v \<Rightarrow> Some v | _ \<Rightarrow> None)"

definition get_tv :: "payload \<Rightarrow> timeval option" where
  "get_tv u = (case u of U_zero \<Rightarrow> Some \<lparr>tv_sec = 0, tv_usec = 0\<rparr>
                       | U_tv v \<Rightarrow> Some v | _ \<Rightarrow> None)"

definition get_ptr :: "payload \<Rightarrow> ptr option" where
  "get_ptr u = (case u of U_zero \<Rightarrow> Some NULL | U_ptr v \<Rightarrow> Some v | _ \<Rightarrow> None)"

definition get_vpid :: "payload \<Rightarrow> u32 option" where
  "get_vpid u = (case u of U_zero \<Rightarrow> Some 0 | U_vpid v \<Rightarrow> Some v | _ \<Rightarrow> None)"

text \<open>Typed objects are read and written at the start of their block.\<close>

definition read_cell :: "heap \<Rightarrow> ptr \<Rightarrow> cell option" where
  "read_cell h p = (if snd p = 0 then cell_at h (fst p) else None)"

definition store :: "heap \<Rightarrow> ptr \<Rightarrow> cell \<Rightarrow> heap option" where
  "store h p c = (if snd p = 0 then set_cell h (fst p) c else None)"

definition read_str :: "heap \<Rightarrow> ptr \<Rightarrow> string option" where
  "read_str h p =
     (case cell_at h (fst p) of
        Some (C_str s) \<Rightarrow>
          if 0 \<le> snd p \<and> snd p \<le> int (length s) then Some (drop (nat (snd p)) s) else None
      | _ \<Rightarrow> None)"

definition strdup :: "heap \<Rightarrow> ptr \<Rightarrow> (ptr \<times> heap) option" where
  "strdup h p = (case read_str h p of None \<Rightarrow> None | Some s \<Rightarrow> Some (malloc h (C_str s)))"

text \<open>
  The deep copy of a byte object that \<open>prrte_value_load\<close>,
  \<open>prrte_value_unload\<close> and \<open>prrte_value_xfer\<close> share: when the source has
  bytes and a positive size, \<open>malloc\<close> and \<open>memcpy\<close> of \<open>size\<close> bytes; otherwise
  null bytes and size 0.
\<close>

definition copy_bo ::
  "heap \<Rightarrow> prrte_byte_object_t \<Rightarrow> (prrte_byte_object_t \<times> heap) option" where
  "copy_bo h b =
     (if bo_bytes b \<noteq> NULL \<and> 0 < sint (bo_size b)
      then
        let (p, h1) = malloc h (C_bytes (replicate (nat (sint (bo_size b))) 0)) in
        (case memcpy h1 p (bo_bytes b) (sint (bo_size b)) of
           None \<Rightarrow> None
         | Some h2 \<Rightarrow> Some (\<lparr>bo_size = bo_size b, bo_bytes = p\<rparr>, h2))
      else Some (\<lparr>bo_size = 0, bo_bytes = NULL\<rparr>, h))"

definition prrte_value_load ::
  "heap \<Rightarrow> prrte_value_t \<Rightarrow> ptr \<Rightarrow> prrte_data_type_t
     \<Rightarrow> (rc \<times> heap \<times> prrte_value_t) option" where
  "prrte_value_load h kv0 raw ty =
     (let kv = kv0\<lparr>type := ty\<rparr> in
      if raw = NULL \<and> ty \<noteq> PRRTE_STRING \<and> ty \<noteq> PRRTE_BYTE_OBJECT
      then Some (PRRTE_SUCCESS, h, kv\<lparr>data := U_zero\<rparr>)
      else
        (case ty of
           PRRTE_BOOL \<Rightarrow>
             (case read_cell h raw of
                Some (C_bool v) \<Rightarrow> Some (PRRTE_SUCCESS, h, kv\<lparr>data := U_flag v\<rparr>)
              | _ \<Rightarrow> None)
         | PRRTE_BYTE \<Rightarrow>
             (case read_cell h raw of
                Some (C_uint8 v) \<Rightarrow> Some (PRRTE_SUCCESS, h, kv\<lparr>data := U_byte v\<rparr>)
              | _ \<Rightarrow> None)
         | PRRTE_STRING \<Rightarrow>
             (case get_string (data kv) of
                None \<Rightarrow> None
              | Some old \<Rightarrow>
                  (case free h old of
                     None \<Rightarrow> None
                   | Some h1 \<Rightarrow>
                       if raw \<noteq> NULL
                       then (case strdup h1 raw of
                               None \<Rightarrow> None
                             | Some (p, h2) \<Rightarrow>
                                 Some (PRRTE_SUCCESS, h2, kv\<lparr>data := U_string p\<rparr>))
                       else Some (PRRTE_SUCCESS, h1, kv\<lparr>data := U_string NULL\<rparr>)))
         | PRRTE_SIZE \<Rightarrow>
             (case read_cell h raw of
                Some (C_size v) \<Rightarrow> Some (PRRTE_SUCCESS, h, kv\<lparr>data := U_size v\<rparr>)
              | _ \<Rightarrow> None)
         | PRRTE_PID \<Rightarrow>
             (case read_cell h raw of
                Some (C_pid v) \<Rightarrow> Some (PRRTE_SUCCESS, h, kv\<lparr>data := U_pid v\<rparr>)
              | _ \<Rightarrow> None)
         | PRRTE_INT \<Rightarrow>
             (case read_cell h raw of
                Some (C_int v) \<Rightarrow> Some (PRRTE_SUCCESS, h, kv\<lparr>data := U_integer v\<rparr>)
              | _ \<Rightarrow> None)
         | PRRTE_INT8 \<Rightarrow>
             (case read_cell h raw of
                Some (C_int8 v) \<Rightarrow> Some (PRRTE_SUCCESS, h, kv\<lparr>data := U_int8 v\<rparr>)
              | _ \<Rightarrow> None)
         | PRRTE_INT16 \<Rightarrow>
             (case read_cell h raw of
                Some (C_int16 v) \<Rightarrow> Some (PRRTE_SUCCESS, h, kv\<lparr>data := U_int16 v\<rparr>)
              | _ \<Rightarrow> None)
         | PRRTE_INT32 \<Rightarrow>
             (case read_cell h raw of
                Some (C_int32 v) \<Rightarrow> Some (PRRTE_SUCCESS, h, kv\<lparr>data := U_int32 v\<rparr>)
              | _ \<Rightarrow> None)
         | PRRTE_INT64 \<Rightarrow>
             (case read_cell h raw of
                Some (C_int64 v) \<Rightarrow> Some (PRRTE_SUCCESS, h, kv\<lparr>data := U_int64 v\<rparr>)
              | _ \<Rightarrow> None)
         | PRRTE_UINT \<Rightarrow>
             (case read_cell h raw of
                Some (C_uint v) \<Rightarrow> Some (PRRTE_SUCCESS, h, kv\<lparr>data := U_uint v\<rparr>)
              | _ \<Rightarrow> None)
         | PRRTE_UINT8 \<Rightarrow>
             (case read_cell h raw of
                Some (C_uint8 v) \<Rightarrow> Some (PRRTE_SUCCESS, h, kv\<lparr>data := U_uint8 v\<rparr>)
              | _ \<Rightarrow> None)
         | PRRTE_UINT16 \<Rightarrow>
             (case read_cell h raw of
                Some (C_uint16 v) \<Rightarrow> Some (PRRTE_SUCCESS, h, kv\<lparr>data := U_uint16 v\<rparr>)
              | _ \<Rightarrow> None)
         | PRRTE_UINT32 \<Rightarrow>
             (case read_cell h raw of
                Some (C_uint32 v) \<Rightarrow> Some (PRRTE_SUCCESS, h, kv\<lparr>data := U_uint32 v\<rparr>)
              | _ \<Rightarrow> None)
         | PRRTE_UINT64 \<Rightarrow>
             (case read_cell h raw of
                Some (C_uint64 v) \<Rightarrow> Some (PRRTE_SUCCESS, h, kv\<lparr>data := U_uint64 v\<rparr>)
              | _ \<Rightarrow> None)
         | PRRTE_BYTE_OBJECT \<Rightarrow>
             (case get_bo (data kv) of
                None \<Rightarrow> None
              | Some old \<Rightarrow>
                  (case free h (bo_bytes old) of
                     None \<Rightarrow> None
                   | Some h1 \<Rightarrow>
                       if raw \<noteq> NULL
                       then (case read_cell h1 raw of
                               Some (C_bo boptr) \<Rightarrow>
                                 (case copy_bo h1 boptr of
                                    None \<Rightarrow> None
                                  | Some (b, h2) \<Rightarrow>
                                      Some (PRRTE_SUCCESS, h2, kv\<lparr>data := U_bo b\<rparr>))
                             | _ \<Rightarrow> None)
                       else Some (PRRTE_SUCCESS, h1,
                                  kv\<lparr>data := U_bo \<lparr>bo_size = 0, bo_bytes = NULL\<rparr>\<rparr>)))
         | PRRTE_FLOAT \<Rightarrow>
             (case read_cell h raw of
                Some (C_float v) \<Rightarrow> Some (PRRTE_SUCCESS, h, kv\<lparr>data := U_fval v\<rparr>)
              | _ \<Rightarrow> None)
         | PRRTE_TIMEVAL \<Rightarrow>
             (case read_cell h raw of
                Some (C_timeval tv) \<Rightarrow>
                  Some (PRRTE_SUCCESS, h,
                        kv\<lparr>data := U_tv \<lparr>tv_sec = tv_sec tv, tv_usec = tv_usec tv\<rparr>\<rparr>)
              | _ \<Rightarrow> None)
         | PRRTE_PTR \<Rightarrow> Some (PRRTE_SUCCESS, h, kv\<lparr>data := U_ptr raw\<rparr>)
         | _ \<Rightarrow> Some (PRRTE_ERR_NOT_SUPPORTED, h, kv)))"


text \<open>
  \<open>prrte_value_unload(kv, data, type)\<close>. The argument \<open>slot\<close> stands for
  \<open>void **data\<close>: \<open>None\<close> when \<open>data\<close> is null, \<open>Some p\<close> when \<open>*data\<close> is \<open>p\<close>;
  the result carries \<open>*data\<close> as the call leaves it. For the fixed-width
  kinds the value is copied into the object that \<open>*data\<close> points to.
\<close>

definition prrte_value_unload ::
  "heap \<Rightarrow> prrte_value_t \<Rightarrow> ptr option \<Rightarrow> prrte_data_type_t
     \<Rightarrow> (rc \<times> heap \<times> ptr option) option" where
  "prrte_value_unload h kv slot ty =
     (if ty \<noteq> type kv then Some (PRRTE_ERR_TYPE_MISMATCH, h, slot)
      else if slot = None
              \<or> (ty \<noteq> PRRTE_STRING \<and> ty \<noteq> PRRTE_BYTE_OBJECT \<and> slot = Some NULL)
      then Some (PRRTE_ERR_BAD_PARAM, h, slot)
      else
        (case ty of
           PRRTE_BOOL \<Rightarrow>
             (case get_flag (data kv) of
                None \<Rightarrow> None
              | Some v \<Rightarrow>
                  (case store h (the slot) (C_bool v) of
                     None \<Rightarrow> None
                   | Some h1 \<Rightarrow> Some (PRRTE_SUCCESS, h1, slot)))
         | PRRTE_BYTE \<Rightarrow>
             (case get_byte (data kv) of
                None \<Rightarrow> None
              | Some v \<Rightarrow>
                  (case store h (the slot) (C_uint8 v) of
                     None \<Rightarrow> None
                   | Some h1 \<Rightarrow> Some (PRRTE_SUCCESS, h1, slot)))
         | PRRTE_STRING \<Rightarrow>
             (case get_string (data kv) of
                None \<Rightarrow> None
              | Some s \<Rightarrow>
                  if s \<noteq> NULL
                  then (case strdup h s of
                          None \<Rightarrow> None
                        | Some (p, h1) \<Rightarrow> Some (PRRTE_SUCCESS, h1, Some p))
                  else Some (PRRTE_SUCCESS, h, Some NULL))
         | PRRTE_SIZE \<Rightarrow>
             (case get_size (data kv) of
                None \<Rightarrow> None
              | Some v \<Rightarrow>
                  (case store h (the slot) (C_size v) of
                     None \<Rightarrow> None
                   | Some h1 \<Rightarrow> Some (PRRTE_SUCCESS, h1, slot)))
         | PRRTE_PID \<Rightarrow>
             (case get_pid (data kv) of
                None \<Rightarrow> None
              | Some v \<Rightarrow>
                  (case store h (the slot) (C_pid v) of
                     None \<Rightarrow> None
                   | Some h1 \<Rightarrow> Some (PRRTE_SUCCESS, h1, slot)))
         | PRRTE_INT \<Rightarrow>
             (case get_integer (data kv) of
                None \<Rightarrow> None
              | Some v \<Rightarrow>
                  (case store h (the slot) (C_int v) of
                     None \<Rightarrow> None
                   | Some h1 \<Rightarrow> Some (PRRTE_SUCCESS, h1, slot)))
         | PRRTE_INT8 \<Rightarrow>
             (case get_int8 (data kv) of
                None \<Rightarrow> None
              | Some v \<Rightarrow>
                  (case store h (the slot) (C_int8 v) of
                     None \<Rightarrow> None
                   | Some h1 \<Rightarrow> Some (PRRTE_SUCCESS, h1, slot)))
         | PRRTE_INT16 \<Rightarrow>
             (case get_int16 (data kv) of
                None \<Rightarrow> None
              | Some v \<Rightarrow>
                  (case store h (the slot) (C_int16 v) of
                     None \<Rightarrow> None
                   | Some h1 \<Rightarrow> Some (PRRTE_SUCCESS, h1, slot)))
         | PRRTE_INT32 \<Rightarrow>
             (case get_int32 (data kv) of
                None \<Rightarrow> None
              | Some v \<Rightarrow>
                  (case store h (the slot) (C_int32 v) of
                     None \<Rightarrow> None
                   | Some h1 \<Rightarrow> Some (PRRTE_SUCCESS, h1, slot)))
         | PRRTE_INT64 \<Rightarrow>
             (case get_int64 (data kv) of
                None \<Rightarrow> None
              | Some v \<Rightarrow>
                  (case store h (the slot) (C_int64 v) of
                     None \<Rightarrow> None
                   | Some h1 \<Rightarrow> Some (PRRTE_SUCCESS, h1, slot)))
         | PRRTE_UINT \<Rightarrow>
             (case get_uint (data kv) of
                None \<Rightarrow> None
              | Some v \<Rightarrow>
                  (case store h (the slot) (C_uint v) of
                     None \<Rightarrow> None
                   | Some h1 \<Rightarrow> Some (PRRTE_SUCCESS, h1, slot)))
         | PRRTE_UINT8 \<Rightarrow>
             (case get_uint8 (data kv) of
                None \<Rightarrow> None
              | Some v \<Rightarrow>
                  (case store h (the slot) (C_uint8 v) of
                     None \<Rightarrow> None
                   | Some h1 \<Rightarrow> Some (PRRTE_SUCCESS, h1, slot)))
         | PRRTE_UINT16 \<Rightarrow>
             (case get_uint16 (data kv) of
                None \<Rightarrow> None
              | Some v \<Rightarrow>
                  (case store h (the slot) (C_uint16 v) of
                     None \<Rightarrow> None
                   | Some h1 \<Rightarrow> Some (PRRTE_SUCCESS, h1, slot)))
         | PRRTE_UINT32 \<Rightarrow>
             (case get_uint32 (data kv) of
                None \<Rightarrow> None
              | Some v \<Rightarrow>
                  (case store h (the slot) (C_uint32 v) of
                     None \<Rightarrow> None
                   | Some h1 \<Rightarrow> Some (PRRTE_SUCCESS, h1, slot)))
         | PRRTE_UINT64 \<Rightarrow>
             (case get_uint64 (data kv) of
                None \<Rightarrow> None
              | Some v \<Rightarrow>
                  (case store h (the slot) (C_uint64 v) of
                     None \<Rightarrow> None
                   | Some h1 \<Rightarrow> Some (PRRTE_SUCCESS, h1, slot)))
         | PRRTE_BYTE_OBJECT \<Rightarrow>
             (case get_bo (data kv) of
                None \<Rightarrow> None
              | Some src \<Rightarrow>
                  let (boptr, h1) = malloc h (C_bo \<lparr>bo_size = 0, bo_bytes = NULL\<rparr>) in
                  (case copy_bo h1 src of
                     None \<Rightarrow> None
                   | Some (b, h2) \<Rightarrow>
                       (case store h2 boptr (C_bo b) of
                          None \<Rightarrow> None
                        | Some h3 \<Rightarrow> Some (PRRTE_SUCCESS, h3, Some boptr))))
         | PRRTE_FLOAT \<Rightarrow>
             (case get_fval (data kv) of
                None \<Rightarrow> None
              | Some v \<Rightarrow>
                  (case store h (the slot) (C_float v) of
                     None \<Rightarrow> None
                   | Some h1 \<Rightarrow> Some (PRRTE_SUCCESS, h1, slot)))
         | PRRTE_TIMEVAL \<Rightarrow>
             (case get_tv (data kv) of
                None \<Rightarrow> None
              | Some v \<Rightarrow>
                  (case store h (the slot) (C_timeval v) of
                     None \<Rightarrow> None
                   | Some h1 \<Rightarrow> Some (PRRTE_SUCCESS, h1, slot)))
         | PRRTE_PTR \<Rightarrow>
             (case get_ptr (data kv) of
                None \<Rightarrow> None
              | Some v \<Rightarrow> Some (PRRTE_SUCCESS, h, Some v))
         | PRRTE_VPID \<Rightarrow>
             (case get_vpid (data kv) of
                None \<Rightarrow> None
              | Some v \<Rightarrow>
                  (case store h (the slot) (C_vpid v) of
                     None \<Rightarrow> None
                   | Some h1 \<Rightarrow> Some (PRRTE_SUCCESS, h1, slot)))
         | _ \<Rightarrow> Some (PRRTE_ERR_NOT_SUPPORTED, h, slot)))"

text \<open>
  \<open>prrte_value_xfer(dest, src)\<close>: the key is duplicated and the type tag
  overwritten before the switch on the tag.
\<close>

definition prrte_value_xfer ::
  "heap \<Rightarrow> prrte_value_t \<Rightarrow> prrte_value_t \<Rightarrow> (rc \<times> heap \<times> prrte_value_t) option" where
  "prrte_value_xfer h dest src =
     (case (if key src \<noteq> NULL
            then (case strdup h (key src) of
                    None \<Rightarrow> None
                  | Some (p, h1) \<Rightarrow> Some (h1, dest\<lparr>key := p\<rparr>))
            else Some (h, dest)) of
        None \<Rightarrow> None
      | Some (h1, d0) \<Rightarrow>
          let d = d0\<lparr>type := type src\<rparr> in
          (case type src of
              PRRTE_BOOL \<Rightarrow>
                (case get_flag (data src) of
                   None \<Rightarrow> None
                 | Some v \<Rightarrow> Some (PRRTE_SUCCESS, h1, d\<lparr>data := U_flag v\<rparr>))
            | PRRTE_BYTE \<Rightarrow>
                (case get_byte (data src) of
                   None \<Rightarrow> None
                 | Some v \<Rightarrow> Some (PRRTE_SUCCESS, h1, d\<lparr>data := U_byte v\<rparr>))
            | PRRTE_STRING \<Rightarrow>
                (case get_string (data d) of
                   None \<Rightarrow> None
                 | Some old \<Rightarrow>
                     (case free h1 old of
                        None \<Rightarrow> None
                      | Some h2 \<Rightarrow>
                          (case get_string (data src) of
                             None \<Rightarrow> None
                           | Some s \<Rightarrow>
                               if s \<noteq> NULL
                               then (case strdup h2 s of
                                       None \<Rightarrow> None
                                     | Some (p, h3) \<Rightarrow>
                                         Some (PRRTE_SUCCESS, h3, d\<lparr>data := U_string p\<rparr>))
                               else Some (PRRTE_SUCCESS, h2, d\<lparr>data := U_string NULL\<rparr>))))
            | PRRTE_SIZE \<Rightarrow>
                (case get_size (data src) of
                   None \<Rightarrow> None
                 | Some v \<Rightarrow> Some (PRRTE_SUCCESS, h1, d\<lparr>data := U_size v\<rparr>))
            | PRRTE_PID \<Rightarrow>
                (case get_pid (data src) of
                   None \<Rightarrow> None
                 | Some v \<Rightarrow> Some (PRRTE_SUCCESS, h1, d\<lparr>data := U_pid v\<rparr>))
            | PRRTE_INT \<Rightarrow>
                (case get_integer (data src) of
                   None \<Rightarrow> None
                 | Some v \<Rightarrow> Some (PRRTE_SUCCESS, h1, d\<lparr>data := U_integer v\<rparr>))
            | PRRTE_INT8 \<Rightarrow>
                (case get_int8 (data src) of
                   None \<Rightarrow> None
                 | Some v \<Rightarrow> Some (PRRTE_SUCCESS, h1, d\<lparr>data := U_int8 v\<rparr>))
            | PRRTE_INT16 \<Rightarrow>
                (case get_int16 (data src) of
                   None \<Rightarrow> None
                 | Some v \<Rightarrow> Some (PRRTE_SUCCESS, h1, d\<lparr>data := U_int16 v\<rparr>))
            | PRRTE_INT32 \<Rightarrow>
                (case get_int32 (data src) of
                   None \<Rightarrow> None
                 | Some v \<Rightarrow> Some (PRRTE_SUCCESS, h1, d\<lparr>data := U_int32 v\<rparr>))
            | PRRTE_INT64 \<Rightarrow>
                (case get_int64 (data src) of
                   None \<Rightarrow> None
                 | Some v \<Rightarrow> Some (PRRTE_SUCCESS, h1, d\<lparr>data := U_int64 v\<rparr>))
            | PRRTE_UINT \<Rightarrow>
                (case get_uint (data src) of
                   None \<Rightarrow> None
                 | Some v \<Rightarrow> Some (PRRTE_SUCCESS, h1, d\<lparr>data := U_uint v\<rparr>))
            | PRRTE_UINT8 \<Rightarrow>
                (case get_uint8 (data src) of
                   None \<Rightarrow> None
                 | Some v \<Rightarrow> Some (PRRTE_SUCCESS, h1, d\<lparr>data := U_uint8 v\<rparr>))
            | PRRTE_UINT16 \<Rightarrow>
                (case get_uint16 (data src) of
                   None \<Rightarrow> None
                 | Some v \<Rightarrow> Some (PRRTE_SUCCESS, h1, d\<lparr>data := U_uint16 v\<rparr>))
            | PRRTE_UINT32 \<Rightarrow>
                (case get_uint32 (data src) of
                   None \<Rightarrow> None
                 | Some v \<Rightarrow> Some (PRRTE_SUCCESS, h1, d\<lparr>data := U_uint32 v\<rparr>))
            | PRRTE_UINT64 \<Rightarrow>
                (case get_uint64 (data src) of
                   None \<Rightarrow> None
                 | Some v \<Rightarrow> Some (PRRTE_SUCCESS, h1, d\<lparr>data := U_uint64 v\<rparr>))
            | PRRTE_BYTE_OBJECT \<Rightarrow>
                (case get_bo (data d) of
                   None \<Rightarrow> None
                 | Some old \<Rightarrow>
                     (case free h1 (bo_bytes old) of
                        None \<Rightarrow> None
                      | Some h2 \<Rightarrow>
                          (case get_bo (data src) of
                             None \<Rightarrow> None
                           | Some boptr \<Rightarrow>
                               (case copy_bo h2 boptr of
                                  None \<Rightarrow> None
                                | Some (b, h3) \<Rightarrow>
                                    Some (PRRTE_SUCCESS, h3, d\<lparr>data := U_bo b\<rparr>)))))
            | PRRTE_FLOAT \<Rightarrow>
                (case get_fval (data src) of
                   None \<Rightarrow> None
                 | Some v \<Rightarrow> Some (PRRTE_SUCCESS, h1, d\<lparr>data := U_fval v\<rparr>))
            | PRRTE_TIMEVAL \<Rightarrow>
                (case get_tv (data src) of
                   None \<Rightarrow> None
                 | Some tv \<Rightarrow>
                     Some (PRRTE_SUCCESS, h1,
                           d\<lparr>data := U_tv \<lparr>tv_sec = tv_sec tv, tv_usec = tv_usec tv\<rparr>\<rparr>))
            | PRRTE_PTR \<Rightarrow>
                (case get_ptr (data src) of
                   None \<Rightarrow> None
                 | Some v \<Rightarrow> Some (PRRTE_SUCCESS, h1, d\<lparr>data := U_ptr v\<rparr>))
            | _ \<Rightarrow> Some (PRRTE_ERR_NOT_SUPPORTED, h1, d)))"

text \<open>The tags that have a case label in \<open>prrte_value_load\<close> (and in
  \<open>prrte_value_xfer\<close>, whose labels are the same).\<close>

definition load_supported :: "prrte_data_type_t \<Rightarrow> bool" where
  "load_supported ty =
     (case ty of PRRTE_VPID \<Rightarrow> False | PRRTE_OTHER k \<Rightarrow> False | _ \<Rightarrow> True)"


section \<open>The TM launch module\<close>

datatype prte_job_state_t =
    PRTE_JOB_STATE_UNDEF
  | PRTE_JOB_STATE_INIT
  | PRTE_JOB_STATE_MAP
  | PRTE_JOB_STATE_LAUNCH_DAEMONS
  | PRTE_JOB_STATE_DAEMONS_LAUNCHED
  | PRTE_JOB_STATE_DAEMONS_REPORTED
  | PRTE_JOB_STATE_FAILED_TO_START

datatype prte_rc =
    PRTE_SUCCESS
  | PRTE_ERROR
  | PRTE_ERR_NOT_FOUND
  | PRTE_ERR_OUT_OF_RESOURCE
  | PRTE_ERR_RESOURCE_BUSY

text \<open>Status of a call into the TM library: \<open>TM_SUCCESS\<close> or an error number.\<close>

datatype tm_status = TM_SUCCESS | TM_ERR int

text \<open>
  A node, with the fields the handler reads: its name, the rank of its daemon
  (\<open>node->daemon->name.rank\<close>), the flag \<open>PRTE_NODE_FLAG_DAEMON_LAUNCHED\<close> and
  the attribute \<open>PRTE_NODE_LAUNCH_ID\<close> (\<open>None\<close> when the node does not carry
  it).
\<close>

record prte_node_t =
  node_name :: string
  daemon_rank :: u32
  daemon_launched :: bool
  launch_id :: "u32 option"

text \<open>The map: the pointer array of nodes (\<open>None\<close> for a null entry) and the
  count of daemons to start.\<close>

record prte_job_map_t =
  nodes :: "prte_node_t option list"
  num_new_daemons :: int

text \<open>
  A job, with what the module reads and writes: the state, the flags
  \<open>PRTE_JOB_FLAG_RESTART\<close> and \<open>PRTE_JOB_FLAG_DEBUGGER_DAEMON\<close>, the attribute
  \<open>PRTE_JOB_DO_NOT_LAUNCH\<close> and the map (\<open>None\<close> for a null pointer).
\<close>

record prte_job_t =
  job_state :: prte_job_state_t
  flag_restart :: bool
  flag_debugger_daemon :: bool
  do_not_launch :: bool
  job_map :: "prte_job_map_t option"

text \<open>One call of \<open>tm_spawn\<close>: the argument vector, the launch id, and the index
  into the handle arrays (\<open>tm_task_ids + launched\<close>, \<open>tm_events + launched\<close>).\<close>

record spawn_call =
  sp_argv :: "string list"
  sp_where :: u32
  sp_slot :: int

text \<open>
  The state the handlers run on: the job objects by address, the two static
  variables of the module, and a log of what the handlers did to the outside:
  the job states activated (\<open>PRTE_ACTIVATE_JOB_STATE\<close> queues an event for the
  state machine), the \<open>tm_spawn\<close> calls issued, the numbers of \<open>tm_init\<close> and
  \<open>tm_poll\<close> calls, the "tm-spawn-failed" messages shown (\<open>argv[0]\<close>, node name
  and launch id), and whether the process called \<open>exit\<close>. The counter
  \<open>launched\<close>, an \<open>int32_t\<close> that starts at 0 and that the code only ever
  increments, is kept as the number it stands for: the model is that of the
  code as long as the counter is below \<open>2^31\<close>.
\<close>

record world =
  jobs :: "nat \<Rightarrow> prte_job_t"
  launched :: int
  connected :: bool
  activated :: "(nat \<times> prte_job_state_t) list"
  spawned :: "spawn_call list"
  tm_inits :: nat
  polled :: nat
  shown :: "(string \<times> string \<times> u32) list"
  exited :: bool

text \<open>
  What the module calls and does not define: the daemon job object of this
  process (\<open>prte_get_job_data_object(PRTE_PROC_MY_NAME->nspace)\<close>),
  \<open>prte_plm_base_setup_virtual_machine\<close> (it may change job objects, for
  instance add nodes to the daemon job's map), whether the two \<open>malloc\<close>s of the
  handle arrays succeed, the daemon command line and the index of its rank
  argument (\<open>prte_plm_base_setup_prted_cmd\<close>,
  \<open>prte_plm_base_prted_append_basic_args\<close>),
  \<open>prte_util_convert_vpid_to_string\<close>, and the TM library: the status of the
  k-th \<open>tm_init\<close>, of a \<open>tm_spawn\<close> given the number of earlier spawn calls, and
  of the k-th \<open>tm_poll\<close> (its return status and the \<open>local_err\<close> it reports).
  The environment block of lines 289 to 355 is passed unchanged to every
  spawn and no step of its construction can fail; it is left out.
\<close>

record env =
  my_job :: nat
  setup_virtual_machine :: "(nat \<Rightarrow> prte_job_t) \<Rightarrow> nat \<Rightarrow> prte_rc \<times> (nat \<Rightarrow> prte_job_t)"
  events_alloc_ok :: bool
  task_ids_alloc_ok :: bool
  prted_argv :: "string list"
  proc_vpid_index :: nat
  convert_vpid :: "u32 \<Rightarrow> string option"
  tm_init :: "nat \<Rightarrow> tm_status"
  tm_spawn :: "nat \<Rightarrow> spawn_call \<Rightarrow> tm_status"
  tm_poll :: "nat \<Rightarrow> tm_status \<times> tm_status"

definition plm_tm_launch_job :: "nat \<Rightarrow> world \<Rightarrow> prte_rc \<times> world" where
  "plm_tm_launch_job jdata w =
     (if flag_restart (jobs w jdata)
      then (PRTE_SUCCESS, w\<lparr>activated := activated w @ [(jdata, PRTE_JOB_STATE_MAP)]\<rparr>)
      else (PRTE_SUCCESS, w\<lparr>activated := activated w @ [(jdata, PRTE_JOB_STATE_INIT)]\<rparr>))"

text \<open>\<open>plm_tm_connect\<close>: up to ten calls of \<open>tm_init\<close>.\<close>

fun tm_connect_loop :: "env \<Rightarrow> nat \<Rightarrow> world \<Rightarrow> prte_rc \<times> world" where
  "tm_connect_loop e 0 w = (PRTE_ERR_RESOURCE_BUSY, w)"
| "tm_connect_loop e (Suc k) w =
     (let w1 = w\<lparr>tm_inits := tm_inits w + 1\<rparr> in
      if tm_init e (tm_inits w) = TM_SUCCESS then (PRTE_SUCCESS, w1)
      else tm_connect_loop e k w1)"

definition plm_tm_connect :: "env \<Rightarrow> world \<Rightarrow> prte_rc \<times> world" where
  "plm_tm_connect e w = tm_connect_loop e 10 w"

text \<open>
  The three ways out of \<open>launch_daemons\<close> before the node loop that set the
  job's state to "daemons launched" and activate "daemons reported".
\<close>

definition daemons_reported :: "nat \<Rightarrow> world \<Rightarrow> world" where
  "daemons_reported jdata w =
     w\<lparr>jobs := (jobs w)(jdata := (jobs w jdata)\<lparr>job_state := PRTE_JOB_STATE_DAEMONS_LAUNCHED\<rparr>),
       activated := activated w @ [(jdata, PRTE_JOB_STATE_DAEMONS_REPORTED)]\<rparr>"

text \<open>The label \<open>cleanup\<close> of \<open>launch_daemons\<close> and of \<open>poll_spawns\<close>.\<close>

definition cleanup :: "nat \<Rightarrow> bool \<Rightarrow> world \<Rightarrow> world" where
  "cleanup job failed_launch w =
     (if failed_launch
      then w\<lparr>activated := activated w @ [(job, PRTE_JOB_STATE_FAILED_TO_START)]\<rparr>
      else w)"

datatype loop_exit = Spawned | Failed | Exited

definition argv0 :: "string list \<Rightarrow> string" where
  "argv0 argv = (case argv of [] \<Rightarrow> [] | a # _ \<Rightarrow> a)"

text \<open>
  The loop over the nodes of the map (lines 361 to 409). \<open>Failed\<close> is a
  \<open>goto cleanup\<close>, \<open>Exited\<close> the call of \<open>exit(-1)\<close>.
\<close>

fun spawn_loop :: "env \<Rightarrow> prte_node_t option list \<Rightarrow> string list \<Rightarrow> world
                     \<Rightarrow> loop_exit \<times> world" where
  "spawn_loop e [] argv w = (Spawned, w)"
| "spawn_loop e (None # ns) argv w = spawn_loop e ns argv w"
| "spawn_loop e (Some node # ns) argv w =
     (if daemon_launched node then spawn_loop e ns argv w
      else
        (case convert_vpid e (daemon_rank node) of
           None \<Rightarrow> (Exited, w)
         | Some vpid_string \<Rightarrow>
             let argv1 = argv[proc_vpid_index e := vpid_string] in
             (case launch_id node of
                None \<Rightarrow>
                  (Failed, w\<lparr>shown := shown w @ [(argv0 argv1, node_name node, 0)]\<rparr>)
              | Some launchid \<Rightarrow>
                  let call = \<lparr>sp_argv = argv1, sp_where = launchid, sp_slot = launched w\<rparr>;
                      w1 = w\<lparr>spawned := spawned w @ [call]\<rparr>
                  in if tm_spawn e (length (spawned w)) call \<noteq> TM_SUCCESS
                     then (Failed,
                           w1\<lparr>shown := shown w1 @ [(argv0 argv1, node_name node, launchid)]\<rparr>)
                     else spawn_loop e ns argv1 (w1\<lparr>launched := launched w1 + 1\<rparr>))))"

text \<open>Lines 282 to 287: connect once per process.\<close>

definition ensure_connected :: "env \<Rightarrow> world \<Rightarrow> bool \<times> world" where
  "ensure_connected e w =
     (if \<not> connected w
      then (case plm_tm_connect e w of
              (r, w1) \<Rightarrow> if r \<noteq> PRTE_SUCCESS then (False, w1)
                         else (True, w1\<lparr>connected := True\<rparr>))
      else (True, w))"

definition launch_daemons :: "env \<Rightarrow> nat \<Rightarrow> world \<Rightarrow> world" where
  "launch_daemons e jdata w =
     (if flag_debugger_daemon (jobs w jdata) then daemons_reported jdata w
      else
        let daemons = my_job e;
            (r, js) = setup_virtual_machine e (jobs w) jdata;
            w1 = w\<lparr>jobs := js\<rparr>
        in
        if r \<noteq> PRTE_SUCCESS then cleanup daemons True w1
        else if do_not_launch (jobs w1 daemons) then daemons_reported jdata w1
        else
          (case job_map (jobs w1 daemons) of
             None \<Rightarrow> cleanup daemons True w1
           | Some m \<Rightarrow>
               if num_new_daemons m = 0 then daemons_reported jdata w1
               else if \<not> events_alloc_ok e then cleanup daemons True w1
               else if \<not> task_ids_alloc_ok e then cleanup daemons True w1
               else
                 (case ensure_connected e w1 of
                    (False, w2) \<Rightarrow> cleanup daemons True w2
                  | (True, w2) \<Rightarrow>
                      (case spawn_loop e (nodes m) (prted_argv e) w2 of
                         (Exited, w3) \<Rightarrow> w3\<lparr>exited := True\<rparr>
                       | (Failed, w3) \<Rightarrow> cleanup daemons True w3
                       | (Spawned, w3) \<Rightarrow>
                           let j1 = (jobs w3)
                                 (jdata := (jobs w3 jdata)
                                    \<lparr>job_state := PRTE_JOB_STATE_DAEMONS_LAUNCHED\<rparr>);
                               j2 = j1
                                 (daemons := (j1 daemons)
                                    \<lparr>job_state := PRTE_JOB_STATE_DAEMONS_LAUNCHED\<rparr>)
                           in cleanup daemons False (w3\<lparr>jobs := j2\<rparr>)))))"





section \<open>Predicates for stating the round trip\<close>

text \<open>
  A byte object is well formed when its size is not negative and, for a
  positive size, its bytes pointer designates that many readable bytes; its
  content is those bytes.
\<close>

definition bo_ok :: "heap \<Rightarrow> prrte_byte_object_t \<Rightarrow> bool" where
  "bo_ok h b =
     (0 \<le> sint (bo_size b)
      \<and> (sint (bo_size b) = 0 \<or> read_bytes h (bo_bytes b) (sint (bo_size b)) \<noteq> None))"

definition bo_content :: "heap \<Rightarrow> prrte_byte_object_t \<Rightarrow> u8 list" where
  "bo_content h b =
     (case read_bytes h (bo_bytes b) (sint (bo_size b)) of None \<Rightarrow> [] | Some xs \<Rightarrow> xs)"

text \<open>The C type that \<open>prrte_value_load\<close> reads for each fixed-width tag.\<close>

definition scalar_cell :: "prrte_data_type_t \<Rightarrow> cell \<Rightarrow> bool" where
  "scalar_cell ty c =
     (case ty of
        PRRTE_BOOL \<Rightarrow> (case c of C_bool v \<Rightarrow> True | _ \<Rightarrow> False)
      | PRRTE_BYTE \<Rightarrow> (case c of C_uint8 v \<Rightarrow> True | _ \<Rightarrow> False)
      | PRRTE_SIZE \<Rightarrow> (case c of C_size v \<Rightarrow> True | _ \<Rightarrow> False)
      | PRRTE_PID \<Rightarrow> (case c of C_pid v \<Rightarrow> True | _ \<Rightarrow> False)
      | PRRTE_INT \<Rightarrow> (case c of C_int v \<Rightarrow> True | _ \<Rightarrow> False)
      | PRRTE_INT8 \<Rightarrow> (case c of C_int8 v \<Rightarrow> True | _ \<Rightarrow> False)
      | PRRTE_INT16 \<Rightarrow> (case c of C_int16 v \<Rightarrow> True | _ \<Rightarrow> False)
      | PRRTE_INT32 \<Rightarrow> (case c of C_int32 v \<Rightarrow> True | _ \<Rightarrow> False)
      | PRRTE_INT64 \<Rightarrow> (case c of C_int64 v \<Rightarrow> True | _ \<Rightarrow> False)
      | PRRTE_UINT \<Rightarrow> (case c of C_uint v \<Rightarrow> True | _ \<Rightarrow> False)
      | PRRTE_UINT8 \<Rightarrow> (case c of C_uint8 v \<Rightarrow> True | _ \<Rightarrow> False)
      | PRRTE_UINT16 \<Rightarrow> (case c of C_uint16 v \<Rightarrow> True | _ \<Rightarrow> False)
      | PRRTE_UINT32 \<Rightarrow> (case c of C_uint32 v \<Rightarrow> True | _ \<Rightarrow> False)
      | PRRTE_UINT64 \<Rightarrow> (case c of C_uint64 v \<Rightarrow> True | _ \<Rightarrow> False)
      | PRRTE_FLOAT \<Rightarrow> (case c of C_float v \<Rightarrow> True | _ \<Rightarrow> False)
      | PRRTE_TIMEVAL \<Rightarrow> (case c of C_timeval v \<Rightarrow> True | _ \<Rightarrow> False)
      | _ \<Rightarrow> False)"

text \<open>
  \<open>x\<close> points to a source datum of kind \<open>ty\<close>: an object of the C type of the
  tag; for a string a null pointer or a C string; for a byte object a well
  formed one; for the raw-pointer kind any pointer.
\<close>

definition is_datum :: "heap \<Rightarrow> prrte_data_type_t \<Rightarrow> ptr \<Rightarrow> bool" where
  "is_datum h ty x =
     (case ty of
        PRRTE_STRING \<Rightarrow> x = NULL \<or> read_str h x \<noteq> None
      | PRRTE_BYTE_OBJECT \<Rightarrow> (case read_cell h x of Some (C_bo b) \<Rightarrow> bo_ok h b | _ \<Rightarrow> False)
      | PRRTE_PTR \<Rightarrow> True
      | _ \<Rightarrow> (case read_cell h x of Some c \<Rightarrow> scalar_cell ty c | None \<Rightarrow> False))"

text \<open>
  What \<open>prrte_value_unload\<close> needs of \<open>*data\<close>: an object to copy into for the
  fixed-width kinds, any non-null pointer for the raw-pointer kind, nothing
  for strings and byte objects.
\<close>

definition slot_ok :: "heap \<Rightarrow> prrte_data_type_t \<Rightarrow> ptr \<Rightarrow> bool" where
  "slot_ok h ty y =
     (case ty of
        PRRTE_STRING \<Rightarrow> True
      | PRRTE_BYTE_OBJECT \<Rightarrow> True
      | PRRTE_PTR \<Rightarrow> y \<noteq> NULL
      | _ \<Rightarrow> read_cell h y \<noteq> None)"

text \<open>
  The release of the payload a value held before \<open>prrte_value_load\<close> installs
  a string or a byte object.
\<close>

definition release_old :: "heap \<Rightarrow> prrte_value_t \<Rightarrow> prrte_data_type_t \<Rightarrow> heap option" where
  "release_old h kv ty =
     (case ty of
        PRRTE_STRING \<Rightarrow> (case get_string (data kv) of None \<Rightarrow> None | Some old \<Rightarrow> free h old)
      | PRRTE_BYTE_OBJECT \<Rightarrow>
          (case get_bo (data kv) of None \<Rightarrow> None | Some old \<Rightarrow> free h (bo_bytes old))
      | _ \<Rightarrow> Some h)"

text \<open>
  The unloaded datum \<open>y\<close> (in the heap \<open>h'\<close>) equals the source datum \<open>x\<close> (in
  the heap \<open>h\<close>): the same pointer for the raw-pointer kind; another object
  with the same characters, or the same size and bytes, for strings and byte
  objects; the same object value for the fixed-width kinds.
\<close>

definition same_datum :: "prrte_data_type_t \<Rightarrow> heap \<Rightarrow> ptr \<Rightarrow> heap \<Rightarrow> ptr \<Rightarrow> bool" where
  "same_datum ty h x h' y =
     (case ty of
        PRRTE_STRING \<Rightarrow>
          (if x = NULL then y = NULL
           else y \<noteq> NULL \<and> fst y \<noteq> fst x \<and> read_str h' y = read_str h x)
      | PRRTE_BYTE_OBJECT \<Rightarrow>
          (case (read_cell h x, read_cell h' y) of
             (Some (C_bo a), Some (C_bo b)) \<Rightarrow>
               fst y \<noteq> fst x \<and> bo_size b = bo_size a \<and> bo_content h' b = bo_content h a
           | _ \<Rightarrow> False)
      | PRRTE_PTR \<Rightarrow> y = x
      | _ \<Rightarrow> read_cell h' y = read_cell h x)"

section \<open>Example inputs for the launch module\<close>

text \<open>
  Concrete nodes, jobs, states and collaborators on which the properties of
  the launch module are instantiated: three nodes without a daemon, with
  launch ids 10, 20 and 30; a job that is no debugger-daemon job; a state in
  which TM is connected and nothing has been logged; collaborators of which
  the status of the virtual-machine setup, of each \<open>tm_spawn\<close> and of each
  \<open>tm_poll\<close> can be chosen.
\<close>

definition ex_node :: "string \<Rightarrow> u32 \<Rightarrow> u32 \<Rightarrow> prte_node_t" where
  "ex_node nm rk lid =
     \<lparr>node_name = nm, daemon_rank = rk, daemon_launched = False, launch_id = Some lid\<rparr>"

definition ex_job :: "bool \<Rightarrow> prte_job_map_t \<Rightarrow> prte_job_t" where
  "ex_job dnl m =
     \<lparr>job_state = PRTE_JOB_STATE_LAUNCH_DAEMONS, flag_restart = False,
      flag_debugger_daemon = False, do_not_launch = dnl, job_map = Some m\<rparr>"

definition ex_world :: "prte_job_t \<Rightarrow> int \<Rightarrow> world" where
  "ex_world j n =
     \<lparr>jobs = (\<lambda>_. j), launched = n, connected = True, activated = [], spawned = [],
      tm_inits = 0, polled = 0, shown = [], exited = False\<rparr>"

definition ex_env :: "prte_rc \<Rightarrow> (nat \<Rightarrow> tm_status) \<Rightarrow> (nat \<Rightarrow> tm_status \<times> tm_status) \<Rightarrow> env" where
  "ex_env r sp pl =
     \<lparr>my_job = 2, setup_virtual_machine = (\<lambda>js j. (r, js)),
      events_alloc_ok = True, task_ids_alloc_ok = True,
      prted_argv = [''prted'', ''rank''], proc_vpid_index = 1,
      convert_vpid = (\<lambda>v. Some (if v = 1 then ''1'' else if v = 2 then ''2'' else ''3'')),
      tm_init = (\<lambda>k. TM_SUCCESS), tm_spawn = (\<lambda>k c. sp k), tm_poll = pl\<rparr>"

definition ex_map3 :: prte_job_map_t where
  "ex_map3 =
     \<lparr>nodes = [Some (ex_node ''n1'' 1 10), Some (ex_node ''n2'' 2 20), Some (ex_node ''n3'' 3 30)],
      num_new_daemons = 3\<rparr>"





section \<open>Properties of the memory model\<close>

lemma first_free_le: "first_free h \<le> length h"
  by (induction h rule: first_free.induct) auto

lemma first_free_None: "first_free h < length h \<Longrightarrow> h ! first_free h = None"
  by (induction h rule: first_free.induct) auto

lemma malloc_ptr: "malloc h c = (p, h') \<Longrightarrow> fst p \<noteq> 0 \<and> snd p = 0 \<and> cell_at h (fst p) = None"
  using first_free_le[of h] first_free_None[of h]
  by (auto simp: malloc_def cell_at_def Let_def)

lemma cell_at_malloc:
  "malloc h c = (p, h') \<Longrightarrow> cell_at h' b = (if b = fst p then Some c else cell_at h b)"
  using first_free_le[of h]
  by (auto simp: malloc_def cell_at_def Let_def nth_append nth_list_update split: if_splits)

lemma cell_at_free:
  "free h p = Some h' \<Longrightarrow> cell_at h' b = (if p \<noteq> NULL \<and> b = fst p then None else cell_at h b)"
  by (auto simp: free_def cell_at_def nth_list_update split: if_splits)

lemma cell_at_set_cell:
  "set_cell h a c = Some h' \<Longrightarrow> cell_at h' b = (if b = a then Some c else cell_at h b)"
  by (auto simp: set_cell_def cell_at_def nth_list_update split: if_splits)

lemma set_cell_live: "cell_at h a \<noteq> None \<Longrightarrow> \<exists>h'. set_cell h a c = Some h'"
  by (simp add: set_cell_def)

lemma read_bytes_block:
  assumes "cell_at h (fst p) = Some (C_bytes xs)" "0 \<le> snd p" "0 \<le> n" "snd p + n \<le> int (length xs)"
  shows "read_bytes h p n = Some (take (nat n) (drop (nat (snd p)) xs))"
  using assms by (simp add: read_bytes_def)

lemma write_bytes_block:
  assumes "cell_at h (fst p) = Some (C_bytes xs)" "0 \<le> snd p" "snd p + int (length ys) \<le> int (length xs)"
  shows "\<exists>h'. write_bytes h p ys = Some h'
           \<and> (\<forall>b. cell_at h' b = (if b = fst p
                  then Some (C_bytes (take (nat (snd p)) xs @ ys @ drop (nat (snd p) + length ys) xs))
                  else cell_at h b))"
proof -
  obtain h' where h': "set_cell h (fst p) (C_bytes (take (nat (snd p)) xs @ ys @ drop (nat (snd p) + length ys) xs)) = Some h'"
    using set_cell_live[of h "fst p"] assms(1) by fastforce
  show ?thesis
    using assms h' cell_at_set_cell[OF h'] by (simp add: write_bytes_def)
qed

section \<open>Properties of the buffer operations\<close>

lemma sint_narrow:
  "0 \<le> n \<Longrightarrow> n < 2147483648 \<Longrightarrow> sint (word_of_int n :: int32_t) = n"
  by (simp add: int_word_sint)

lemma narrow_zero:
  "0 \<le> n \<Longrightarrow> n < 2147483648 \<Longrightarrow> (word_of_int n :: int32_t) = 0 \<longleftrightarrow> n = 0"
  using sint_narrow[of n] by (auto simp del: of_int_eq_0_iff)

lemma destruct_ok:
  "buffer_ok h b \<Longrightarrow> \<exists>h'. prrte_buffer_destruct h b = Some h'"
  by (cases "base_ptr b") (auto simp: buffer_ok_def prrte_buffer_destruct_def free_def split: if_splits option.splits cell.splits)

lemma buffer_ok_null:
  "buffer_ok h b \<Longrightarrow> base_ptr b = NULL \<Longrightarrow>
     pack_ptr b = NULL \<and> unpack_ptr b = NULL \<and> bytes_allocated b = 0 \<and> bytes_used b = 0"
  by (simp add: buffer_ok_def)

lemma buffer_ok_region:
  assumes "buffer_ok h b" "base_ptr b \<noteq> NULL"
  obtains blk xs off where
    "blk \<noteq> 0" "base_ptr b = (blk, 0)" "cell_at h blk = Some (C_bytes xs)"
    "bytes_allocated b \<le> int (length xs)" "0 \<le> bytes_used b" "bytes_used b \<le> bytes_allocated b"
    "pack_ptr b = (blk, bytes_used b)" "unpack_ptr b = (blk, off)" "0 \<le> off" "off \<le> bytes_used b"
  using assms unfolding buffer_ok_def
  by (cases "base_ptr b"; cases "unpack_ptr b")
     (auto simp: ptr_add_def split: option.splits cell.splits if_splits)

lemma buffer_okI:
  assumes "blk \<noteq> 0" "base_ptr b = (blk, 0)" "cell_at h blk = Some (C_bytes xs)"
    "bytes_allocated b \<le> int (length xs)" "0 \<le> bytes_used b" "bytes_used b \<le> bytes_allocated b"
    "pack_ptr b = (blk, bytes_used b)" "unpack_ptr b = (blk, off)" "0 \<le> off" "off \<le> bytes_used b"
  shows "buffer_ok h b"
  using assms by (simp add: buffer_ok_def ptr_add_def)

lemma packed_region:
  "base_ptr b = (blk, 0) \<Longrightarrow> cell_at h blk = Some (C_bytes xs) \<Longrightarrow>
     packed h b = take (nat (bytes_used b)) xs"
  by (simp add: packed_def)

lemma packed_null: "base_ptr b = NULL \<Longrightarrow> packed h b = []"
  by (simp add: packed_def cell_at_def)

lemma extend_ok:
  assumes ok: "buffer_ok h D" and n: "0 < n"
  shows "\<exists>h1 D1 blk xs. prrte_dss_buffer_extend h D n = Some (pack_ptr D1, h1, D1)
           \<and> blk \<noteq> 0 \<and> base_ptr D1 = (blk, 0) \<and> cell_at h1 blk = Some (C_bytes xs)
           \<and> bytes_allocated D1 \<le> int (length xs)
           \<and> packed h D = take (nat (bytes_used D)) xs
           \<and> bytes_used D1 = bytes_used D \<and> bytes_used D + n \<le> bytes_allocated D1
           \<and> pack_ptr D1 = (blk, bytes_used D)
           \<and> unpack_ptr D1 = (blk, snd (unpack_ptr D))
           \<and> buf_type D1 = buf_type D
           \<and> (blk = fst (base_ptr D) \<or> cell_at h blk = None)
           \<and> (\<forall>a. a \<noteq> blk \<and> a \<noteq> fst (base_ptr D) \<longrightarrow> cell_at h1 a = cell_at h a)"
proof (cases "base_ptr D = NULL")
  case True
  note z = buffer_ok_null[OF ok True]
  obtain q h1 where m: "malloc h (C_bytes (replicate (nat n) 0)) = (q, h1)"
    by (cases "malloc h (C_bytes (replicate (nat n) 0))") auto
  note mp = malloc_ptr[OF m] and c1 = cell_at_malloc[OF m]
  define D1 where "D1 = D\<lparr>base_ptr := q, pack_ptr := ptr_add q 0, unpack_ptr := ptr_add q 0,
                          bytes_allocated := n\<rparr>"
  have q: "snd q = 0" using mp by simp
  have "prrte_dss_buffer_extend h D n = Some (pack_ptr D1, h1, D1)"
    using True z n m by (simp add: prrte_dss_buffer_extend_def ptr_diff_def realloc_def D1_def Let_def)
  moreover have "base_ptr D1 = (fst q, 0)" "pack_ptr D1 = (fst q, bytes_used D)"
    "unpack_ptr D1 = (fst q, snd (unpack_ptr D))"
    using q z by (simp_all add: D1_def ptr_add_def prod_eq_iff)
  moreover have "cell_at h1 (fst q) = Some (C_bytes (replicate (nat n) 0))" using c1 by simp
  moreover have "\<forall>a. a \<noteq> fst q \<and> a \<noteq> fst (base_ptr D) \<longrightarrow> cell_at h1 a = cell_at h a"
    using c1 by simp
  ultimately show ?thesis
    using mp z n True by (auto simp: D1_def packed_null)
next
  case False
  from buffer_ok_region[OF ok False] obtain blk xs off where r:
    "blk \<noteq> 0" "base_ptr D = (blk, 0)" "cell_at h blk = Some (C_bytes xs)"
    "bytes_allocated D \<le> int (length xs)" "0 \<le> bytes_used D" "bytes_used D \<le> bytes_allocated D"
    "pack_ptr D = (blk, bytes_used D)" "unpack_ptr D = (blk, off)" "0 \<le> off" "off \<le> bytes_used D"
    by blast
  show ?thesis
  proof (cases "n \<le> bytes_allocated D - bytes_used D")
    case True
    have "prrte_dss_buffer_extend h D n = Some (pack_ptr D, h, D)"
      using True by (simp add: prrte_dss_buffer_extend_def)
    then show ?thesis
      using r True by (auto simp: packed_region[OF r(2,3)])
  next
    case grow: False
    define ys where "ys = take (nat (bytes_used D + n)) xs
                          @ replicate (nat (bytes_used D + n) - length xs) 0"
    obtain q h1 where m: "malloc h (C_bytes ys) = (q, h1)"
      by (cases "malloc h (C_bytes ys)") auto
    note mp = malloc_ptr[OF m] and c1 = cell_at_malloc[OF m]
    have qb: "fst q \<noteq> blk" using mp r(3) by auto
    have q: "snd q = 0" using mp by simp
    have live1: "cell_at h1 blk = Some (C_bytes xs)" using c1 qb r(3) by simp
    obtain h2 where f: "free h1 (blk, 0) = Some h2"
      using live1 r(1) by (simp add: free_def)
    note c2 = cell_at_free[OF f]
    define D1 where "D1 = D\<lparr>base_ptr := q, pack_ptr := ptr_add q (bytes_used D),
                            unpack_ptr := ptr_add q off, bytes_allocated := bytes_used D + n\<rparr>"
    have "prrte_dss_buffer_extend h D n = Some (pack_ptr D1, h2, D1)"
      using grow r m f n
      by (simp add: prrte_dss_buffer_extend_def ptr_diff_def realloc_def D1_def Let_def ys_def)
    moreover have "base_ptr D1 = (fst q, 0)" "pack_ptr D1 = (fst q, bytes_used D)"
      "unpack_ptr D1 = (fst q, snd (unpack_ptr D))"
      using q r by (simp_all add: D1_def ptr_add_def prod_eq_iff)
    moreover have "cell_at h2 (fst q) = Some (C_bytes ys)" using c2 c1 qb by simp
    moreover have "bytes_allocated D1 \<le> int (length ys)"
      using grow r n by (simp add: ys_def D1_def min_def)
    moreover have "packed h D = take (nat (bytes_used D)) ys"
      using grow r n by (simp add: ys_def packed_region[OF r(2,3)] min_def)
    moreover have "\<forall>a. a \<noteq> fst q \<and> a \<noteq> fst (base_ptr D) \<longrightarrow> cell_at h2 a = cell_at h1 a \<and> cell_at h1 a = cell_at h a"
      using c1 c2 r by simp
    ultimately show ?thesis
      using mp n by (auto simp: D1_def)
  qed
qed

lemma unread_region:
  assumes "base_ptr b = (blk, 0)" "cell_at h blk = Some (C_bytes xs)" "unpack_ptr b = (blk, off)"
    "0 \<le> off" "off \<le> bytes_used b"
  shows "unread h b = take (nat (bytes_used b - off)) (drop (nat off) xs)"
  using assms by (simp add: unread_def packed_def drop_take nat_diff_distrib)

lemma buffer_ok_buf_type: "buffer_ok h (b\<lparr>buf_type := t\<rparr>) = buffer_ok h b"
  by (simp add: buffer_ok_def split: option.splits cell.splits)

lemma copy_payload_step:
  assumes sep: "separate h bs dest src"
    and ty: "bytes_used (bs dest) = 0 \<or> buf_type (bs dest) = buf_type (bs src)"
    and small: "bytes_used (bs src) - snd (unpack_ptr (bs src)) < 2147483648"
  shows "\<exists>h' bs'. prrte_dss_copy_payload h bs dest src = Some (PRRTE_SUCCESS, h', bs')
           \<and> bs' src = bs src
           \<and> cell_at h' (fst (base_ptr (bs src))) = cell_at h (fst (base_ptr (bs src)))
           \<and> buf_type (bs' dest) = buf_type (bs src)
           \<and> snd (unpack_ptr (bs' dest)) = snd (unpack_ptr (bs dest))
           \<and> packed h' (bs' dest) = packed h (bs dest) @ unread h (bs src)
           \<and> separate h' bs' dest src
           \<and> (if unread h (bs src) = []
               then h' = h \<and> bs' = bs(dest := (bs dest)\<lparr>buf_type := buf_type (bs src)\<rparr>)
               else bytes_used (bs' dest) \<noteq> 0)"
proof -
  define D where "D = bs dest"
  define S where "S = bs src"
  define D' where "D' = D\<lparr>buf_type := buf_type S\<rparr>"
  define bs1 where "bs1 = bs(dest := D')"
  from sep have nz: "dest \<noteq> 0" "src \<noteq> 0" and ne: "dest \<noteq> src"
    and okD: "buffer_ok h D" and okS: "buffer_ok h S"
    and dis: "base_ptr D = NULL \<or> fst (base_ptr D) \<noteq> fst (base_ptr S)"
    by (simp_all add: separate_def D_def S_def)
  have okD': "buffer_ok h D'" using okD by (simp add: buffer_ok_buf_type D'_def)
  have s1: "bs1 src = S" "bs1 dest = D'" using ne by (simp_all add: bs1_def S_def)
  have pk': "packed h D' = packed h D"
    by (simp add: packed_def D'_def split: option.splits cell.splits)
  have sep1: "separate h bs1 dest src"
    using sep okD' by (simp add: separate_def s1 D_def[symmetric] S_def[symmetric]) (simp add: D'_def)
  have pass: "\<not> (bytes_used (bs dest) \<noteq> 0 \<and> buf_type (bs dest) \<noteq> buf_type (bs src))"
    using ty by auto
  show ?thesis
  proof (cases "base_ptr S = NULL")
    case True
    note z = buffer_ok_null[OF okS True]
    have "prrte_dss_copy_payload h bs dest src = Some (PRRTE_SUCCESS, h, bs1)"
      using nz pass z True
      by (simp add: prrte_dss_copy_payload_def Let_def bs1_def[symmetric] D_def[symmetric]
          S_def[symmetric] D'_def[symmetric] s1 ptr_diff_def)
    moreover have "unread h S = []" by (simp add: unread_def packed_null[OF True])
    ultimately show ?thesis
      using sep1 s1 pk'
      by (simp add: D_def[symmetric] S_def[symmetric]) (simp add: bs1_def D'_def D_def S_def)
  next
    case False
    from buffer_ok_region[OF okS False] obtain sblk xs off where r:
      "sblk \<noteq> 0" "base_ptr S = (sblk, 0)" "cell_at h sblk = Some (C_bytes xs)"
      "bytes_allocated S \<le> int (length xs)" "0 \<le> bytes_used S" "bytes_used S \<le> bytes_allocated S"
      "pack_ptr S = (sblk, bytes_used S)" "unpack_ptr S = (sblk, off)" "0 \<le> off" "off \<le> bytes_used S"
      by blast
    define n where "n = bytes_used S - off"
    have unr: "unread h S = take (nat n) (drop (nat off) xs)"
      using unread_region[OF r(2,3,8,9,10)] by (simp add: n_def)
    have lunr: "int (length (unread h S)) = n" using r by (simp add: unr n_def)
    have diff: "ptr_diff (unpack_ptr S) (base_ptr S) = Some off" using r by (simp add: ptr_diff_def)
    have nr: "0 \<le> n" "n < 2147483648" using r small by (simp_all add: n_def S_def[symmetric])
    note ws = sint_narrow[OF nr] and wz = narrow_zero[OF nr]
    show ?thesis
    proof (cases "n = 0")
      case True
      have "prrte_dss_copy_payload h bs dest src = Some (PRRTE_SUCCESS, h, bs1)"
        using nz pass diff True
        by (simp add: prrte_dss_copy_payload_def Let_def bs1_def[symmetric] D_def[symmetric]
            S_def[symmetric] D'_def[symmetric] s1 n_def[symmetric])
      moreover have "unread h S = []" using True by (simp add: unr)
      ultimately show ?thesis
        using sep1 s1 pk'
        by (simp add: D_def[symmetric] S_def[symmetric]) (simp add: bs1_def D'_def D_def S_def)
    next
      case nn: False
      then have npos: "0 < n" using r by (simp add: n_def)
      from extend_ok[OF okD' npos] obtain h1 D1 blk ys where e:
        "prrte_dss_buffer_extend h D' n = Some (pack_ptr D1, h1, D1)"
        "blk \<noteq> 0" "base_ptr D1 = (blk, 0)" "cell_at h1 blk = Some (C_bytes ys)"
        "bytes_allocated D1 \<le> int (length ys)" "packed h D' = take (nat (bytes_used D')) ys"
        "bytes_used D1 = bytes_used D'" "bytes_used D' + n \<le> bytes_allocated D1"
        "pack_ptr D1 = (blk, bytes_used D')" "unpack_ptr D1 = (blk, snd (unpack_ptr D'))"
        "buf_type D1 = buf_type D'"
        "blk = fst (base_ptr D') \<or> cell_at h blk = None"
        "\<forall>a. a \<noteq> blk \<and> a \<noteq> fst (base_ptr D') \<longrightarrow> cell_at h1 a = cell_at h a"
        by blast
      have bD': "base_ptr D' = base_ptr D" "bytes_used D' = bytes_used D"
        "unpack_ptr D' = unpack_ptr D" by (simp_all add: D'_def)
      have usedD: "0 \<le> bytes_used D" using okD by (auto simp: buffer_ok_def split: if_splits)
      have offD: "0 \<le> snd (unpack_ptr D)" "snd (unpack_ptr D) \<le> bytes_used D"
        using okD by (auto simp: buffer_ok_def split: if_splits)
      have sb: "sblk \<noteq> blk" "sblk \<noteq> fst (base_ptr D)"
        using e(2,12) dis r(1,2,3) bD' by auto
      have sl1: "cell_at h1 sblk = Some (C_bytes xs)" using e(13) sb r(3) bD' by simp
      have rd: "read_bytes h1 (unpack_ptr S) n = Some (unread h S)"
        using read_bytes_block[of h1 "unpack_ptr S" xs n] sl1 r npos unr by (simp add: n_def)
      have dl1: "cell_at h1 (fst (pack_ptr D1)) = Some (C_bytes ys)" using e by simp
      define zs where "zs = take (nat (bytes_used D)) ys @ unread h S
                             @ drop (nat (bytes_used D) + length (unread h S)) ys"
      obtain h2 where w: "write_bytes h1 (pack_ptr D1) (unread h S) = Some h2"
        and c2: "\<forall>a. cell_at h2 a = (if a = blk then Some (C_bytes zs) else cell_at h1 a)"
        using write_bytes_block[OF dl1, of "unread h S"] e usedD lunr bD'
        by (auto simp: zs_def)
      define D2 where "D2 = D1\<lparr>bytes_used := bytes_used D1 + n,
                               pack_ptr := ptr_add (pack_ptr D1) n\<rparr>"
      define bs2 where "bs2 = bs1(dest := D2)"
      have pnn: "pack_ptr D1 \<noteq> NULL" using e by simp
      have res: "prrte_dss_copy_payload h bs dest src = Some (PRRTE_SUCCESS, h2, bs2)"
        using nz pass diff nn e(1) pnn rd w ne ws wz
        by (simp add: prrte_dss_copy_payload_def Let_def bs1_def[symmetric] D_def[symmetric]
            S_def[symmetric] D'_def[symmetric] s1 n_def[symmetric] memcpy_def
            D2_def bs2_def)
      have b2: "bs2 src = S" "bs2 dest = D2" using ne s1 by (simp_all add: bs2_def)
      have lzs: "length zs = length ys"
        using e usedD lunr npos bD' by (simp add: zs_def)
      have cS: "cell_at h2 sblk = cell_at h sblk" using c2 sb sl1 r(3) by simp
      have okS2: "buffer_ok h2 S"
        using okS cS r by (simp add: buffer_ok_def)
      have okD2: "buffer_ok h2 D2"
        by (rule buffer_okI[where blk=blk and xs=zs and off="snd (unpack_ptr D)"])
           (use e c2 lzs usedD offD npos bD' in \<open>simp_all add: D2_def ptr_add_def\<close>)
      have tk: "length (take (nat (bytes_used D)) ys) = nat (bytes_used D)"
        using e npos usedD bD' by simp
      have pk2: "packed h2 D2 = packed h D @ unread h S"
      proof -
        have "packed h2 D2 = take (nat (bytes_used D + n)) zs"
          using c2 e bD' by (simp add: packed_def D2_def)
        also have "\<dots> = take (nat (bytes_used D)) ys @ unread h S"
          using tk lunr usedD npos by (simp add: zs_def nat_add_distrib)
        finally show ?thesis using e(6) pk' bD' by simp
      qed
      have sep2: "separate h2 bs2 dest src"
        using nz ne okD2 okS2 sb e(3) r(2) by (simp add: separate_def b2) (simp add: D2_def)
      have "unread h S \<noteq> []" using lunr npos by auto
      moreover have "bytes_used D2 \<noteq> 0" using usedD npos e bD' by (simp add: D2_def)
      ultimately show ?thesis
        using res b2 cS pk2 sep2 e(10,11) r(2) bD'
        by (simp add: D_def[symmetric] S_def[symmetric]) (simp add: D2_def D'_def)
    qed
  qed
qed

lemma unread_cong:
  "cell_at h' (fst (base_ptr b)) = cell_at h (fst (base_ptr b)) \<Longrightarrow> unread h' b = unread h b"
  by (simp add: unread_def packed_def)

text \<open>
  C1. A payload region \<open>P\<close> of length \<open>n > 0\<close> (an \<open>int32_t\<close>) is loaded into a
  buffer (whose previous region, if any, can be released) and unloaded before
  anything is unpacked. Both calls succeed; the unload returns the pointer
  \<open>P\<close> itself and the length \<open>n\<close>; the heap is the same before and after the
  unload, so nothing was allocated, copied or released: the region is handed
  over by reference. The buffer is left as a freshly constructed one.
\<close>

theorem load_unload_zero_copy:
  assumes "buffer \<noteq> 0" and "P \<noteq> NULL" and "0 < sint n"
    and "prrte_buffer_destruct h (bs buffer) = Some h1"
  shows "\<exists>bs1. prrte_dss_load dflt h bs buffer P n = Some (PRRTE_SUCCESS, h1, bs1)
           \<and> prrte_dss_unload dflt h1 bs1 buffer (Some q) (Some m)
               = Some (PRRTE_SUCCESS, h1, bs1(buffer := prrte_buffer_construct dflt), Some P, Some n)"
  using assms
  by (auto simp: prrte_dss_load_def prrte_dss_unload_def unload_cleanup_def
      prrte_buffer_destruct_def prrte_buffer_construct_def Let_def)

theorem load_unload_zero_copy_witness:
  "\<exists>bs1. prrte_dss_load 0 [Some (C_bytes [1, 2, 3])] (\<lambda>_. prrte_buffer_construct 0) 1 (1, 0) 3
            = Some (PRRTE_SUCCESS, [Some (C_bytes [1, 2, 3])], bs1)
        \<and> prrte_dss_unload 0 [Some (C_bytes [1, 2, 3])] bs1 1 (Some NULL) (Some 0)
            = Some (PRRTE_SUCCESS, [Some (C_bytes [1, 2, 3])],
                    bs1(1 := prrte_buffer_construct 0), Some (1, 0), Some 3)"
  by (rule load_unload_zero_copy)
     (simp_all add: prrte_buffer_destruct_def prrte_buffer_construct_def)

text \<open>
  C5, as stated, fails for a buffer whose unread tail does not fit the
  \<open>int32_t\<close> that the count is written through. The buffer below satisfies the
  invariant over a region of 4294967299 bytes of which one is unpacked: the
  unread tail has 4294967298 bytes, and the call succeeds, reports 2 and hands
  out a block of 2 bytes.
\<close>

theorem unload_partial_claim_counterexample:
  "buffer_ok [Some (C_bytes (replicate 4294967299 0))]
      \<lparr>buf_type = 0, base_ptr = (1, 0), pack_ptr = (1, 4294967299), unpack_ptr = (1, 1),
       bytes_allocated = 4294967299, bytes_used = 4294967299\<rparr>
   \<and> (case prrte_dss_unload 0 [Some (C_bytes (replicate 4294967299 0))]
              ((\<lambda>_. prrte_buffer_construct 0)
                 (1 := \<lparr>buf_type = 0, base_ptr = (1, 0), pack_ptr = (1, 4294967299),
                        unpack_ptr = (1, 1), bytes_allocated = 4294967299,
                        bytes_used = 4294967299\<rparr>)) 1 (Some NULL) (Some 0) of
         Some (r, h', bs', pl, n) \<Rightarrow>
           r = PRRTE_SUCCESS \<and> n = Some 2 \<and> pl = Some (2, 0)
           \<and> cell_at h' 2 = Some (C_bytes (replicate 2 0))
       | None \<Rightarrow> False)
   \<and> length (unread [Some (C_bytes (replicate 4294967299 0))]
        \<lparr>buf_type = 0, base_ptr = (1, 0), pack_ptr = (1, 4294967299), unpack_ptr = (1, 1),
         bytes_allocated = 4294967299, bytes_used = 4294967299\<rparr>) = 4294967298"
  by (simp add: buffer_ok_def cell_at_def ptr_add_def prrte_dss_unload_def ptr_diff_def Let_def
      malloc_def memcpy_def read_bytes_def write_bytes_def set_cell_def unload_cleanup_def
      prrte_buffer_destruct_def free_def unread_def packed_def)

text \<open>
  C5, amended. A buffer that satisfies the data-model invariant, whose unpack
  cursor stands strictly past the base and whose unread tail has at most
  2147483647 bytes (the largest \<open>int32_t\<close>) is unloaded. The call succeeds
  and reports \<open>bytes_used - (unpack_ptr - base_ptr)\<close> bytes. When that count is zero the
  payload is null; otherwise the payload is a block that was not allocated
  before, different from the buffer's region, holding exactly the unread
  bytes. The buffer's old region is released and the buffer is left as a
  freshly constructed one.
\<close>

theorem unload_partial:
  assumes nz: "buffer \<noteq> 0"
    and ok: "buffer_ok h (bs buffer)"
    and past: "0 < snd (unpack_ptr (bs buffer))"
    and small: "bytes_used (bs buffer) - snd (unpack_ptr (bs buffer)) < 2147483648"
  shows "\<exists>h' p n. prrte_dss_unload dflt h bs buffer (Some q) (Some m)
            = Some (PRRTE_SUCCESS, h', bs(buffer := prrte_buffer_construct dflt), Some p, Some n)
          \<and> sint n = bytes_used (bs buffer) - snd (unpack_ptr (bs buffer))
          \<and> cell_at h' (fst (base_ptr (bs buffer))) = None
          \<and> (if bytes_used (bs buffer) - snd (unpack_ptr (bs buffer)) = 0 then p = NULL
              else cell_at h (fst p) = None \<and> fst p \<noteq> fst (base_ptr (bs buffer)) \<and> snd p = 0
                 \<and> cell_at h' (fst p) = Some (C_bytes (unread h (bs buffer)))
                 \<and> int (length (unread h (bs buffer)))
                      = bytes_used (bs buffer) - snd (unpack_ptr (bs buffer)))"
proof -
  define b where "b = bs buffer"
  define blk where "blk = fst (base_ptr b)"
  define off where "off = snd (unpack_ptr b)"
  define n where "n = bytes_used b - off"
  have base: "base_ptr (bs buffer) \<noteq> NULL"
    using buffer_ok_null[OF ok] past by auto
  from ok base obtain xs where
    blk0: "blk \<noteq> 0" and b0: "base_ptr b = (blk, 0)" and
    xs: "cell_at h blk = Some (C_bytes xs)" and len: "bytes_allocated b \<le> int (length xs)" and
    used: "0 \<le> bytes_used b" "bytes_used b \<le> bytes_allocated b" and
    up: "unpack_ptr b = (blk, off)" and offr: "0 \<le> off" "off \<le> bytes_used b"
    unfolding buffer_ok_def b_def[symmetric] blk_def off_def
    by (cases "base_ptr b"; cases "unpack_ptr b") (auto split: option.splits cell.splits if_splits)
  have offpos: "0 < off" using past by (simp add: off_def b_def)
  have ne: "unpack_ptr b \<noteq> base_ptr b" using up b0 offpos by simp
  have usednz: "bytes_used b \<noteq> 0" using offpos offr by simp
  have diff: "ptr_diff (unpack_ptr b) (base_ptr b) = Some off"
    by (simp add: ptr_diff_def up b0)
  have nr: "0 \<le> n" "n < 2147483648"
    using offr small by (simp_all add: n_def off_def b_def)
  note ws = sint_narrow[OF nr] and wz = narrow_zero[OF nr]
  have unr: "unread h b = take (nat n) (drop (nat off) xs)"
    using offr used by (simp add: unread_def packed_def b0 xs up n_def drop_take nat_diff_distrib)
  have lunr: "int (length (unread h b)) = n"
    using offr used len by (simp add: unr n_def)
  obtain hd where hd: "free h (blk, 0) = Some hd"
    using xs blk0 by (simp add: free_def)
  show ?thesis
  proof (cases "n = 0")
    case True
    have "prrte_dss_unload dflt h bs buffer (Some q) (Some m)
            = Some (PRRTE_SUCCESS, hd, bs(buffer := prrte_buffer_construct dflt), Some NULL, Some 0)"
      using nz ne usednz diff True hd blk0
      by (simp add: prrte_dss_unload_def b_def[symmetric] Let_def b0 n_def[symmetric]
          unload_cleanup_def prrte_buffer_destruct_def)
    moreover have "cell_at hd blk = None" using cell_at_free[OF hd] blk0 by simp
    ultimately show ?thesis
      using True by (simp add: b_def[symmetric] blk_def[symmetric] off_def[symmetric] n_def[symmetric])
  next
    case False
    then have npos: "0 < n" using nr by simp
    obtain p h1 where m: "malloc h (C_bytes (replicate (nat n) 0)) = (p, h1)"
      by (cases "malloc h (C_bytes (replicate (nat n) 0))") auto
    note mp = malloc_ptr[OF m] and c1 = cell_at_malloc[OF m]
    have pblk: "fst p \<noteq> blk" using mp xs by auto
    have xs1: "cell_at h1 (fst (unpack_ptr b)) = Some (C_bytes xs)"
      using c1 pblk xs by (simp add: up)
    have rd: "read_bytes h1 (unpack_ptr b) n = Some (unread h b)"
      using read_bytes_block[OF xs1, of n] offr used len npos unr by (simp add: up n_def)
    have pc: "cell_at h1 (fst p) = Some (C_bytes (replicate (nat n) 0))"
      using c1 by simp
    obtain h2 where w: "write_bytes h1 p (unread h b) = Some h2"
      and c2: "\<forall>a. cell_at h2 a = (if a = fst p then Some (C_bytes (unread h b)) else cell_at h1 a)"
      using write_bytes_block[OF pc, of "unread h b"] mp lunr npos by auto
    have live2: "cell_at h2 blk = Some (C_bytes xs)" using c2 c1 pblk xs by simp
    obtain h3 where f: "free h2 (blk, 0) = Some h3"
      using live2 blk0 by (simp add: free_def)
    note c3 = cell_at_free[OF f]
    have "prrte_dss_unload dflt h bs buffer (Some q) (Some m)
            = Some (PRRTE_SUCCESS, h3, bs(buffer := prrte_buffer_construct dflt), Some p,
                    Some (word_of_int n))"
      using nz ne usednz diff False npos m rd w f blk0 ws wz
      by (simp add: prrte_dss_unload_def b_def[symmetric] Let_def b0 n_def[symmetric]
          unload_cleanup_def prrte_buffer_destruct_def memcpy_def)
    moreover have "cell_at h3 blk = None" using c3 blk0 by simp
    moreover have "cell_at h3 (fst p) = Some (C_bytes (unread h b))"
      using c3 c2 pblk by simp
    ultimately show ?thesis
      using False mp pblk lunr ws
      by (simp add: b_def[symmetric] blk_def[symmetric] off_def[symmetric] n_def[symmetric])
  qed
qed

theorem unload_partial_witness:
  "\<exists>h' p n. prrte_dss_unload 0 [Some (C_bytes [7, 8, 9, 0])]
              ((\<lambda>_. prrte_buffer_construct 0)
                 (1 := \<lparr>buf_type = 0, base_ptr = (1, 0), pack_ptr = (1, 3), unpack_ptr = (1, 1),
                        bytes_allocated = 3, bytes_used = 3\<rparr>)) 1 (Some NULL) (Some 0)
            = Some (PRRTE_SUCCESS, h',
                    ((\<lambda>_. prrte_buffer_construct 0)
                       (1 := \<lparr>buf_type = 0, base_ptr = (1, 0), pack_ptr = (1, 3),
                              unpack_ptr = (1, 1), bytes_allocated = 3, bytes_used = 3\<rparr>))
                      (1 := prrte_buffer_construct 0),
                    Some p, Some n)
         \<and> sint n = 2
         \<and> cell_at h' 1 = None \<and> fst p \<noteq> 1 \<and> cell_at h' (fst p) = Some (C_bytes [8, 9])"
proof -
  define h :: heap where "h = [Some (C_bytes [7, 8, 9, 0])]"
  define bs :: bufstore where "bs = (\<lambda>_. prrte_buffer_construct 0)
                 (1 := \<lparr>buf_type = 0, base_ptr = (1, 0), pack_ptr = (1, 3), unpack_ptr = (1, 1),
                        bytes_allocated = 3, bytes_used = 3\<rparr>)"
  have ok: "buffer_ok h (bs 1)"
    by (simp add: buffer_ok_def h_def bs_def cell_at_def ptr_add_def)
  have u: "unread h (bs 1) = [8, 9]"
    by (simp add: packed_def unread_def h_def bs_def cell_at_def)
  have f: "base_ptr (bs 1) = (1, 0)" "unpack_ptr (bs 1) = (1, 1)" "bytes_used (bs 1) = 3"
    by (simp_all add: bs_def)
  from unload_partial[of 1 h bs 0 NULL 0, OF _ ok] f obtain h' p n where r:
    "prrte_dss_unload 0 h bs 1 (Some NULL) (Some 0)
       = Some (PRRTE_SUCCESS, h', bs(1 := prrte_buffer_construct 0), Some p, Some n)"
    "sint n = 2"
    "cell_at h' 1 = None" "fst p \<noteq> 1" "cell_at h' (fst p) = Some (C_bytes (unread h (bs 1)))"
    by auto
  have "prrte_dss_unload 0 h bs 1 (Some NULL) (Some 0)
       = Some (PRRTE_SUCCESS, h', bs(1 := prrte_buffer_construct 0), Some p, Some n)
       \<and> sint n = 2
       \<and> cell_at h' 1 = None \<and> fst p \<noteq> 1 \<and> cell_at h' (fst p) = Some (C_bytes [8, 9])"
    using r u by simp
  then show ?thesis unfolding h_def bs_def by blast
qed

text \<open>
  C6. \<open>prrte_dss_copy_payload\<close> returns \<open>PRRTE_ERR_BAD_PARAM\<close> when either
  buffer pointer is null. When \<open>dest\<close> holds data and its type differs from
  the type of \<open>src\<close> it returns the error \<open>PRRTE_ERR_BUFFER\<close>, and the heap and
  every buffer object, \<open>dest\<close> included, are what they were before the call.
\<close>

theorem copy_payload_rejects:
  "prrte_dss_copy_payload h bs 0 src = Some (PRRTE_ERR_BAD_PARAM, h, bs)
   \<and> prrte_dss_copy_payload h bs dest 0 = Some (PRRTE_ERR_BAD_PARAM, h, bs)
   \<and> (dest \<noteq> 0 \<and> src \<noteq> 0 \<and> bytes_used (bs dest) \<noteq> 0 \<and> buf_type (bs dest) \<noteq> buf_type (bs src)
        \<longrightarrow> prrte_dss_copy_payload h bs dest src = Some (PRRTE_ERR_BUFFER, h, bs))"
  by (simp add: prrte_dss_copy_payload_def)

theorem copy_payload_rejects_witness:
  "prrte_dss_copy_payload [] ((\<lambda>_. prrte_buffer_construct 0)
        (1 := \<lparr>buf_type = 0, base_ptr = (1, 0), pack_ptr = (1, 2), unpack_ptr = (1, 0),
               bytes_allocated = 2, bytes_used = 2\<rparr>, 2 := prrte_buffer_construct 1)) 1 2
     = Some (PRRTE_ERR_BUFFER, [], (\<lambda>_. prrte_buffer_construct 0)
        (1 := \<lparr>buf_type = 0, base_ptr = (1, 0), pack_ptr = (1, 2), unpack_ptr = (1, 0),
               bytes_allocated = 2, bytes_used = 2\<rparr>, 2 := prrte_buffer_construct 1))"
  using copy_payload_rejects[of "[]" "(\<lambda>_. prrte_buffer_construct 0)
        (1 := \<lparr>buf_type = 0, base_ptr = (1, 0), pack_ptr = (1, 2), unpack_ptr = (1, 0),
               bytes_allocated = 2, bytes_used = 2\<rparr>, 2 := prrte_buffer_construct 1)" 2 1]
  by (simp add: prrte_buffer_construct_def)

text \<open>
  C7, as stated, fails in three places. With an empty \<open>dest\<close> of type 0 and an
  empty (hence fully consumed) \<open>src\<close> of type 1 the call is not a no-op: it
  sets the type of \<open>dest\<close> to 1. With \<open>dest\<close> and \<open>src\<close> the same buffer holding
  two unread bytes, the call changes \<open>src\<close>: it then holds four bytes. With a
  \<open>src\<close> that satisfies the invariant and holds 4294967296 unread bytes, the
  count narrowed to the \<open>int32_t bytes_left\<close> is 0 and the call appends
  nothing to \<open>dest\<close>.
\<close>

theorem copy_payload_claim_counterexample:
  "(case prrte_dss_copy_payload []
           ((\<lambda>_. prrte_buffer_construct 0)(2 := prrte_buffer_construct 1)) 1 2 of
      Some (r, h', bs') \<Rightarrow> r = PRRTE_SUCCESS \<and> buf_type (bs' 1) = 1
                            \<and> buf_type (prrte_buffer_construct 0) = 0
    | None \<Rightarrow> False)
   \<and> (case prrte_dss_copy_payload [Some (C_bytes [7, 8])]
           ((\<lambda>_. prrte_buffer_construct 0)
              (1 := \<lparr>buf_type = 0, base_ptr = (1, 0), pack_ptr = (1, 2), unpack_ptr = (1, 0),
                     bytes_allocated = 2, bytes_used = 2\<rparr>)) 1 1 of
      Some (r, h', bs') \<Rightarrow> r = PRRTE_SUCCESS \<and> bytes_used (bs' 1) = 4 \<and> packed h' (bs' 1) = [7, 8, 7, 8]
    | None \<Rightarrow> False)
   \<and> buffer_ok [Some (C_bytes (replicate 4294967296 0))]
        \<lparr>buf_type = 0, base_ptr = (1, 0), pack_ptr = (1, 4294967296), unpack_ptr = (1, 0),
         bytes_allocated = 4294967296, bytes_used = 4294967296\<rparr>
   \<and> length (unread [Some (C_bytes (replicate 4294967296 0))]
        \<lparr>buf_type = 0, base_ptr = (1, 0), pack_ptr = (1, 4294967296), unpack_ptr = (1, 0),
         bytes_allocated = 4294967296, bytes_used = 4294967296\<rparr>) = 4294967296
   \<and> (case prrte_dss_copy_payload [Some (C_bytes (replicate 4294967296 0))]
           ((\<lambda>_. prrte_buffer_construct 0)
              (2 := \<lparr>buf_type = 0, base_ptr = (1, 0), pack_ptr = (1, 4294967296),
                     unpack_ptr = (1, 0), bytes_allocated = 4294967296,
                     bytes_used = 4294967296\<rparr>)) 1 2 of
      Some (r, h', bs') \<Rightarrow> r = PRRTE_SUCCESS \<and> packed h' (bs' 1) = []
    | None \<Rightarrow> False)"
  by (simp add: prrte_dss_copy_payload_def prrte_buffer_construct_def ptr_diff_def Let_def
      prrte_dss_buffer_extend_def realloc_def malloc_def free_def cell_at_def memcpy_def
      read_bytes_def write_bytes_def set_cell_def ptr_add_def packed_def unread_def
      buffer_ok_def)

text \<open>
  C7, amended. Let \<open>dest\<close> and \<open>src\<close> be non-null buffers that satisfy the
  data-model invariant and do not share a backing region, with compatible
  types (\<open>dest\<close> empty or of the type of \<open>src\<close>) and with at most 2147483647
  unread bytes in \<open>src\<close>. Then the call succeeds and appends exactly the
  unread bytes of \<open>src\<close> to the packed bytes of \<open>dest\<close>; the object \<open>src\<close> and
  its region are unchanged; when \<open>src\<close> has no unread bytes the heap is
  unchanged and \<open>dest\<close> changes in its type tag only, which becomes the type of
  \<open>src\<close>; and a second call appends the same bytes once more.
\<close>

theorem copy_payload_appends_unread:
  assumes nz: "dest \<noteq> 0" "src \<noteq> 0"
    and okd: "buffer_ok h (bs dest)" and oks: "buffer_ok h (bs src)"
    and dis: "base_ptr (bs dest) = NULL \<or> fst (base_ptr (bs dest)) \<noteq> fst (base_ptr (bs src))"
    and ty: "bytes_used (bs dest) = 0 \<or> buf_type (bs dest) = buf_type (bs src)"
    and small: "bytes_used (bs src) - snd (unpack_ptr (bs src)) < 2147483648"
  shows "\<exists>h1 bs1 h2 bs2.
           prrte_dss_copy_payload h bs dest src = Some (PRRTE_SUCCESS, h1, bs1)
         \<and> prrte_dss_copy_payload h1 bs1 dest src = Some (PRRTE_SUCCESS, h2, bs2)
         \<and> packed h1 (bs1 dest) = packed h (bs dest) @ unread h (bs src)
         \<and> packed h2 (bs2 dest) = packed h (bs dest) @ unread h (bs src) @ unread h (bs src)
         \<and> bs1 src = bs src \<and> bs2 src = bs src
         \<and> cell_at h1 (fst (base_ptr (bs src))) = cell_at h (fst (base_ptr (bs src)))
         \<and> cell_at h2 (fst (base_ptr (bs src))) = cell_at h (fst (base_ptr (bs src)))
         \<and> (unread h (bs src) = [] \<longrightarrow>
               h1 = h \<and> bs1 = bs(dest := (bs dest)\<lparr>buf_type := buf_type (bs src)\<rparr>))"
proof (cases "dest = src")
  case True
  have bn: "base_ptr (bs src) = NULL" using dis True by auto
  note z = buffer_ok_null[OF oks bn]
  have e: "bs(src := (bs src)\<lparr>buf_type := buf_type (bs src)\<rparr>) = bs" by simp
  have c: "prrte_dss_copy_payload h bs src src = Some (PRRTE_SUCCESS, h, bs)"
    using nz z bn by (simp add: prrte_dss_copy_payload_def ptr_diff_def Let_def)
  have p: "packed h (bs src) = []" "unread h (bs src) = []"
    by (simp_all add: unread_def packed_null[OF bn])
  show ?thesis
    unfolding True using c p e by (intro exI[of _ h] exI[of _ bs]) simp
next
  case False
  have sep: "separate h bs dest src"
    using nz False okd oks dis by (simp add: separate_def)
  from copy_payload_step[OF sep ty small] obtain h1 bs1 where a:
    "prrte_dss_copy_payload h bs dest src = Some (PRRTE_SUCCESS, h1, bs1)"
    "bs1 src = bs src"
    "cell_at h1 (fst (base_ptr (bs src))) = cell_at h (fst (base_ptr (bs src)))"
    "buf_type (bs1 dest) = buf_type (bs src)"
    "packed h1 (bs1 dest) = packed h (bs dest) @ unread h (bs src)"
    "separate h1 bs1 dest src"
    "unread h (bs src) = [] \<longrightarrow>
       h1 = h \<and> bs1 = bs(dest := (bs dest)\<lparr>buf_type := buf_type (bs src)\<rparr>)"
    by (auto split: if_splits)
  have ty1: "bytes_used (bs1 dest) = 0 \<or> buf_type (bs1 dest) = buf_type (bs1 src)"
    using a(2,4) by simp
  have small1: "bytes_used (bs1 src) - snd (unpack_ptr (bs1 src)) < 2147483648"
    using small a(2) by simp
  from copy_payload_step[OF a(6) ty1 small1] obtain h2 bs2 where b:
    "prrte_dss_copy_payload h1 bs1 dest src = Some (PRRTE_SUCCESS, h2, bs2)"
    "bs2 src = bs1 src"
    "cell_at h2 (fst (base_ptr (bs1 src))) = cell_at h1 (fst (base_ptr (bs1 src)))"
    "packed h2 (bs2 dest) = packed h1 (bs1 dest) @ unread h1 (bs1 src)"
    by (auto split: if_splits)
  have u1: "unread h1 (bs1 src) = unread h (bs src)"
    using unread_cong[of h1 "bs src" h] a(2,3) by simp
  show ?thesis
    using a b u1 by simp
qed

theorem copy_payload_appends_unread_witness:
  "\<exists>h1 bs1 h2 bs2.
     prrte_dss_copy_payload [Some (C_bytes [7, 8, 9])]
        ((\<lambda>_. prrte_buffer_construct 0)
           (2 := \<lparr>buf_type = 1, base_ptr = (1, 0), pack_ptr = (1, 3), unpack_ptr = (1, 1),
                  bytes_allocated = 3, bytes_used = 3\<rparr>)) 1 2
       = Some (PRRTE_SUCCESS, h1, bs1)
   \<and> prrte_dss_copy_payload h1 bs1 1 2 = Some (PRRTE_SUCCESS, h2, bs2)
   \<and> packed h1 (bs1 1) = [8, 9]
   \<and> packed h2 (bs2 1) = [8, 9, 8, 9]"
proof -
  define h :: heap where "h = [Some (C_bytes [7, 8, 9])]"
  define bs :: bufstore where "bs = (\<lambda>_. prrte_buffer_construct 0)
           (2 := \<lparr>buf_type = 1, base_ptr = (1, 0), pack_ptr = (1, 3), unpack_ptr = (1, 1),
                  bytes_allocated = 3, bytes_used = 3\<rparr>)"
  have nz: "(1::nat) \<noteq> 0" "(2::nat) \<noteq> 0" by simp_all
  have okd: "buffer_ok h (bs 1)"
    by (simp add: buffer_ok_def bs_def prrte_buffer_construct_def)
  have oks: "buffer_ok h (bs 2)"
    by (simp add: buffer_ok_def h_def bs_def cell_at_def ptr_add_def)
  have dis: "base_ptr (bs 1) = NULL \<or> fst (base_ptr (bs 1)) \<noteq> fst (base_ptr (bs 2))"
    by (simp add: bs_def prrte_buffer_construct_def)
  have ty: "bytes_used (bs 1) = 0 \<or> buf_type (bs 1) = buf_type (bs 2)"
    by (simp add: bs_def prrte_buffer_construct_def)
  have small: "bytes_used (bs 2) - snd (unpack_ptr (bs 2)) < 2147483648"
    by (simp add: bs_def)
  have p: "packed h (bs 1) = []" "unread h (bs 2) = [8, 9]"
    by (simp_all add: packed_def unread_def h_def bs_def prrte_buffer_construct_def cell_at_def)
  from copy_payload_appends_unread[OF nz okd oks dis ty small] obtain h1 bs1 h2 bs2 where r:
    "prrte_dss_copy_payload h bs 1 2 = Some (PRRTE_SUCCESS, h1, bs1)"
    "prrte_dss_copy_payload h1 bs1 1 2 = Some (PRRTE_SUCCESS, h2, bs2)"
    "packed h1 (bs1 1) = packed h (bs 1) @ unread h (bs 2)"
    "packed h2 (bs2 1) = packed h (bs 1) @ unread h (bs 2) @ unread h (bs 2)"
    by blast
  have "prrte_dss_copy_payload h bs 1 2 = Some (PRRTE_SUCCESS, h1, bs1)
      \<and> prrte_dss_copy_payload h1 bs1 1 2 = Some (PRRTE_SUCCESS, h2, bs2)
      \<and> packed h1 (bs1 1) = [8, 9] \<and> packed h2 (bs2 1) = [8, 9, 8, 9]"
    using r p by simp
  then show ?thesis unfolding h_def bs_def by blast
qed

section \<open>Properties of the typed-value operations\<close>

lemma read_cell_not_null: "read_cell h x = Some c \<Longrightarrow> x \<noteq> NULL"
  by (auto simp: read_cell_def cell_at_def)

lemma store_read:
  "read_cell h y \<noteq> None \<Longrightarrow> \<exists>h'. store h y c = Some h' \<and> read_cell h' y = Some c"
  by (auto simp: read_cell_def store_def set_cell_def cell_at_def split: if_splits)

lemma timeval_eta: "\<lparr>tv_sec = tv_sec (t::timeval), tv_usec = tv_usec t\<rparr> = t"
  by (cases t) simp

lemma scalar_roundtrip:
  assumes ty: "ty \<noteq> PRRTE_STRING" "ty \<noteq> PRRTE_BYTE_OBJECT" "ty \<noteq> PRRTE_PTR"
    and sup: "load_supported ty"
    and d: "is_datum h ty x" and s: "slot_ok h ty y"
  shows "\<exists>kv1 h2. prrte_value_load h kv x ty = Some (PRRTE_SUCCESS, h, kv1)
           \<and> prrte_value_unload h kv1 (Some y) ty = Some (PRRTE_SUCCESS, h2, Some y)
           \<and> read_cell h2 y = read_cell h x"
proof -
  from d ty obtain c where c: "read_cell h x = Some c" "scalar_cell ty c"
    by (cases ty) (auto simp: is_datum_def scalar_cell_def split: option.splits)
  have xn: "x \<noteq> NULL" using read_cell_not_null[OF c(1)] .
  from s ty have yl: "read_cell h y \<noteq> None" by (cases ty) (auto simp: slot_ok_def)
  then have yn: "y \<noteq> NULL" by (auto simp: read_cell_def cell_at_def)
  from store_read[OF yl, of c] obtain h2 where h2: "store h y c = Some h2" "read_cell h2 y = Some c"
    by blast
  show ?thesis
    using c xn yn h2 ty
    by (cases ty; cases c)
       (simp_all add: scalar_cell_def prrte_value_load_def prrte_value_unload_def Let_def
          get_flag_def get_byte_def get_size_def get_pid_def get_integer_def get_int8_def
          get_int16_def get_int32_def get_int64_def get_uint_def get_uint8_def get_uint16_def
          get_uint32_def get_uint64_def get_fval_def get_tv_def timeval_eta)
qed

lemma read_str_cong:
  "cell_at h' (fst p) = cell_at h (fst p) \<Longrightarrow> read_str h' p = read_str h p"
  by (simp add: read_str_def)

lemma strdup_ok:
  assumes "read_str h x = Some s"
  shows "\<exists>p h'. strdup h x = Some (p, h') \<and> fst p \<noteq> 0 \<and> snd p = 0 \<and> cell_at h (fst p) = None
           \<and> read_str h' p = Some s
           \<and> (\<forall>a. cell_at h' a = (if a = fst p then Some (C_str s) else cell_at h a))"
proof -
  obtain p h' where m: "malloc h (C_str s) = (p, h')" by (cases "malloc h (C_str s)") auto
  note mp = malloc_ptr[OF m] and c = cell_at_malloc[OF m]
  have "read_str h' p = Some s" using c mp by (simp add: read_str_def)
  then show ?thesis using assms m mp c by (simp add: strdup_def)
qed

lemma string_roundtrip:
  assumes r: "release_old h kv PRRTE_STRING = Some h0"
    and d: "is_datum h0 PRRTE_STRING x"
  shows "\<exists>h1 kv1 h2 y'. prrte_value_load h kv x PRRTE_STRING = Some (PRRTE_SUCCESS, h1, kv1)
           \<and> prrte_value_unload h1 kv1 (Some y) PRRTE_STRING = Some (PRRTE_SUCCESS, h2, Some y')
           \<and> same_datum PRRTE_STRING h0 x h2 y'"
proof -
  from r obtain old where old: "get_string (data kv) = Some old" "free h old = Some h0"
    by (auto simp: release_old_def split: option.splits)
  show ?thesis
  proof (cases "x = NULL")
    case True
    then show ?thesis
      using old
      by (simp add: prrte_value_load_def prrte_value_unload_def Let_def get_string_def
          same_datum_def)
  next
    case False
    with d obtain s where s: "read_str h0 x = Some s" by (auto simp: is_datum_def)
    then have xl: "cell_at h0 (fst x) \<noteq> None"
      by (auto simp: read_str_def split: option.splits)
    from strdup_ok[OF s] obtain p h1 where p:
      "strdup h0 x = Some (p, h1)" "fst p \<noteq> 0" "snd p = 0" "cell_at h0 (fst p) = None"
      "read_str h1 p = Some s"
      "\<forall>a. cell_at h1 a = (if a = fst p then Some (C_str s) else cell_at h0 a)"
      by blast
    from strdup_ok[OF p(5)] obtain q h2 where q:
      "strdup h1 p = Some (q, h2)" "fst q \<noteq> 0" "snd q = 0" "cell_at h1 (fst q) = None"
      "read_str h2 q = Some s"
      by blast
    have pn: "p \<noteq> NULL" using p(2) by auto
    have qn: "q \<noteq> NULL" using q(2) by auto
    have qx: "fst q \<noteq> fst x" using q(4) p(6) xl by (auto split: if_splits)
    have "prrte_value_load h kv x PRRTE_STRING
            = Some (PRRTE_SUCCESS, h1, kv\<lparr>type := PRRTE_STRING, data := U_string p\<rparr>)"
      using False old p(1) by (simp add: prrte_value_load_def Let_def)
    moreover have "prrte_value_unload h1 (kv\<lparr>type := PRRTE_STRING, data := U_string p\<rparr>)
                     (Some y) PRRTE_STRING = Some (PRRTE_SUCCESS, h2, Some q)"
      using pn q(1) by (simp add: prrte_value_unload_def get_string_def)
    moreover have "same_datum PRRTE_STRING h0 x h2 q"
      using False qn qx q(5) s by (simp add: same_datum_def)
    ultimately show ?thesis by blast
  qed
qed

lemma ptr_roundtrip:
  assumes "y \<noteq> NULL"
  shows "\<exists>kv1. prrte_value_load h kv x PRRTE_PTR = Some (PRRTE_SUCCESS, h, kv1)
           \<and> prrte_value_unload h kv1 (Some y) PRRTE_PTR = Some (PRRTE_SUCCESS, h, Some x)"
  using assms
  by (cases "x = NULL")
     (simp_all add: prrte_value_load_def prrte_value_unload_def Let_def get_ptr_def)

lemma bo_content_cong:
  "cell_at h' (fst (bo_bytes b)) = cell_at h (fst (bo_bytes b)) \<Longrightarrow> bo_content h' b = bo_content h b"
  by (simp add: bo_content_def read_bytes_def)

lemma bo_ok_cong:
  "cell_at h' (fst (bo_bytes b)) = cell_at h (fst (bo_bytes b)) \<Longrightarrow> bo_ok h' b = bo_ok h b"
  by (simp add: bo_ok_def read_bytes_def)

lemma bo_content_empty: "sint (bo_size b) = 0 \<Longrightarrow> bo_content h b = []"
  by (auto simp: bo_content_def read_bytes_def split: option.splits cell.splits if_splits)

lemma copy_bo_ok:
  assumes ok: "bo_ok h a"
  shows "\<exists>b h'. copy_bo h a = Some (b, h') \<and> bo_size b = bo_size a \<and> bo_ok h' b
           \<and> bo_content h' b = bo_content h a
           \<and> (\<forall>c. cell_at h c \<noteq> None \<longrightarrow> cell_at h' c = cell_at h c)
           \<and> (bo_bytes b = NULL
                \<or> cell_at h (fst (bo_bytes b)) = None \<and> cell_at h' (fst (bo_bytes b)) \<noteq> None)"
proof (cases "bo_bytes a \<noteq> NULL \<and> 0 < sint (bo_size a)")
  case True
  define n where "n = sint (bo_size a)"
  have npos: "0 < n" using True by (simp add: n_def)
  from ok npos obtain xs where rd: "read_bytes h (bo_bytes a) n = Some xs"
    by (auto simp: bo_ok_def n_def)
  then obtain ys where ys: "cell_at h (fst (bo_bytes a)) = Some (C_bytes ys)"
    and lxs: "int (length xs) = n"
    by (auto simp: read_bytes_def split: option.splits cell.splits if_splits)
  obtain p h1 where m: "malloc h (C_bytes (replicate (nat n) 0)) = (p, h1)"
    by (cases "malloc h (C_bytes (replicate (nat n) 0))") auto
  note mp = malloc_ptr[OF m] and c1 = cell_at_malloc[OF m]
  have pa: "fst p \<noteq> fst (bo_bytes a)" using mp ys by auto
  have rd1: "read_bytes h1 (bo_bytes a) n = Some xs"
    using rd c1 pa by (simp add: read_bytes_def)
  have pc: "cell_at h1 (fst p) = Some (C_bytes (replicate (nat n) 0))" using c1 by simp
  obtain h2 where w: "write_bytes h1 p xs = Some h2"
    and c2: "\<forall>c. cell_at h2 c = (if c = fst p then Some (C_bytes xs) else cell_at h1 c)"
    using write_bytes_block[OF pc, of xs] mp lxs npos by auto
  define b where "b = \<lparr>bo_size = bo_size a, bo_bytes = p\<rparr>"
  have cp: "copy_bo h a = Some (b, h2)"
    using True m rd1 w by (simp add: copy_bo_def n_def[symmetric] memcpy_def b_def)
  have rb: "read_bytes h2 (bo_bytes b) (sint (bo_size b)) = Some xs"
    using c2 mp lxs npos by (simp add: read_bytes_def b_def n_def[symmetric])
  have "bo_ok h2 b" using rb npos by (simp add: bo_ok_def b_def n_def[symmetric])
  moreover have "bo_content h2 b = bo_content h a"
    using rb rd by (simp add: bo_content_def n_def[symmetric])
  moreover have "\<forall>c. cell_at h c \<noteq> None \<longrightarrow> cell_at h2 c = cell_at h c"
    using c2 c1 mp by auto
  moreover have "cell_at h (fst (bo_bytes b)) = None \<and> cell_at h2 (fst (bo_bytes b)) \<noteq> None"
    using mp c2 by (simp add: b_def)
  ultimately show ?thesis using cp by (auto simp: b_def)
next
  case False
  have z: "sint (bo_size a) = 0"
  proof (rule ccontr)
    assume nz: "sint (bo_size a) \<noteq> 0"
    with ok have pos: "0 < sint (bo_size a)"
      and rd: "read_bytes h (bo_bytes a) (sint (bo_size a)) \<noteq> None"
      by (auto simp: bo_ok_def)
    from rd have "cell_at h (fst (bo_bytes a)) \<noteq> None"
      by (auto simp: read_bytes_def split: option.splits)
    then have "bo_bytes a \<noteq> NULL" by (auto simp: cell_at_def)
    with pos False show False by simp
  qed
  then have sz: "bo_size a = 0" by (metis sint_0 signed_word_eqI)
  have "copy_bo h a = Some (\<lparr>bo_size = 0, bo_bytes = NULL\<rparr>, h)"
    using False by (auto simp: copy_bo_def)
  moreover have "bo_ok h \<lparr>bo_size = 0, bo_bytes = NULL\<rparr>" by (simp add: bo_ok_def)
  moreover have "bo_content h \<lparr>bo_size = 0, bo_bytes = NULL\<rparr> = bo_content h a"
    using z by (simp add: bo_content_empty)
  ultimately show ?thesis using sz by simp
qed

lemma store_frame:
  "store h y c = Some h' \<Longrightarrow> cell_at h' a = (if a = fst y then Some c else cell_at h a)"
  by (auto simp: store_def dest: cell_at_set_cell split: if_splits)

lemma store_live:
  "snd y = 0 \<Longrightarrow> cell_at h (fst y) \<noteq> None \<Longrightarrow> \<exists>h'. store h y c = Some h'"
  by (simp add: store_def set_cell_def)

lemma bo_roundtrip:
  assumes r: "release_old h kv PRRTE_BYTE_OBJECT = Some h0"
    and d: "is_datum h0 PRRTE_BYTE_OBJECT x"
  shows "\<exists>h1 kv1 h2 y'. prrte_value_load h kv x PRRTE_BYTE_OBJECT = Some (PRRTE_SUCCESS, h1, kv1)
           \<and> prrte_value_unload h1 kv1 (Some y) PRRTE_BYTE_OBJECT
               = Some (PRRTE_SUCCESS, h2, Some y')
           \<and> same_datum PRRTE_BYTE_OBJECT h0 x h2 y'"
proof -
  from r obtain old where old: "get_bo (data kv) = Some old" "free h (bo_bytes old) = Some h0"
    by (auto simp: release_old_def split: option.splits)
  from d obtain a where a: "read_cell h0 x = Some (C_bo a)" "bo_ok h0 a"
    by (auto simp: is_datum_def split: option.splits cell.splits)
  have xn: "x \<noteq> NULL" using read_cell_not_null[OF a(1)] .
  have xl: "snd x = 0" "cell_at h0 (fst x) = Some (C_bo a)"
    using a(1) by (auto simp: read_cell_def split: if_splits)
  from copy_bo_ok[OF a(2)] obtain b h1 where b:
    "copy_bo h0 a = Some (b, h1)" "bo_size b = bo_size a" "bo_ok h1 b"
    "bo_content h1 b = bo_content h0 a"
    "\<forall>c. cell_at h0 c \<noteq> None \<longrightarrow> cell_at h1 c = cell_at h0 c"
    "bo_bytes b = NULL \<or> cell_at h0 (fst (bo_bytes b)) = None \<and> cell_at h1 (fst (bo_bytes b)) \<noteq> None"
    by blast
  define kv1 where "kv1 = kv\<lparr>type := PRRTE_BYTE_OBJECT, data := U_bo b\<rparr>"
  have ld: "prrte_value_load h kv x PRRTE_BYTE_OBJECT = Some (PRRTE_SUCCESS, h1, kv1)"
    using xn old a(1) b(1) by (simp add: prrte_value_load_def Let_def kv1_def)
  obtain bp h2 where m: "malloc h1 (C_bo \<lparr>bo_size = 0, bo_bytes = NULL\<rparr>) = (bp, h2)"
    by (cases "malloc h1 (C_bo \<lparr>bo_size = 0, bo_bytes = NULL\<rparr>)") auto
  note mp = malloc_ptr[OF m] and c2 = cell_at_malloc[OF m]
  have x1: "cell_at h1 (fst x) = Some (C_bo a)" using b(5) xl by simp
  have bpx: "fst bp \<noteq> fst x" using mp x1 by auto
  have bpb: "fst bp \<noteq> fst (bo_bytes b)" using mp b(6) by auto
  have ok2: "bo_ok h2 b" using bo_ok_cong[of h2 b h1] c2 bpb b(3) by simp
  have ct2: "bo_content h2 b = bo_content h1 b" using bo_content_cong[of h2 b h1] c2 bpb by simp
  from copy_bo_ok[OF ok2] obtain b2 h3 where b2:
    "copy_bo h2 b = Some (b2, h3)" "bo_size b2 = bo_size b"
    "bo_content h3 b2 = bo_content h2 b"
    "\<forall>c. cell_at h2 c \<noteq> None \<longrightarrow> cell_at h3 c = cell_at h2 c"
    "bo_bytes b2 = NULL \<or> cell_at h2 (fst (bo_bytes b2)) = None \<and> cell_at h3 (fst (bo_bytes b2)) \<noteq> None"
    by blast
  have bp3: "cell_at h3 (fst bp) \<noteq> None" using b2(4) c2 by simp
  from store_live[of bp h3 "C_bo b2"] mp bp3 obtain h4 where st: "store h3 bp (C_bo b2) = Some h4"
    by auto
  note c4 = store_frame[OF st]
  have bpb2: "fst bp \<noteq> fst (bo_bytes b2)" using mp b2(5) c2 by auto
  have ct4: "bo_content h4 b2 = bo_content h3 b2"
    using bo_content_cong[of h4 b2 h3] c4 bpb2 by simp
  have ul: "prrte_value_unload h1 kv1 (Some y) PRRTE_BYTE_OBJECT = Some (PRRTE_SUCCESS, h4, Some bp)"
    using m b2(1) st by (simp add: prrte_value_unload_def kv1_def get_bo_def)
  have "read_cell h4 bp = Some (C_bo b2)" using c4 mp by (simp add: read_cell_def)
  then have "same_datum PRRTE_BYTE_OBJECT h0 x h4 bp"
    using a(1) bpx b2(2,3) b(2,4) ct2 ct4 by (simp add: same_datum_def)
  then show ?thesis using ld ul by blast
qed

text \<open>
  C8. Let \<open>ty\<close> be a tag that \<open>prrte_value_load\<close> supports, let the payload the
  value held before be releasable, let \<open>x\<close> point to a datum of kind \<open>ty\<close> and
  let the output slot be usable for \<open>ty\<close>. Then loading \<open>x\<close> and unloading with
  the same tag both succeed, and the unloaded datum equals \<open>x\<close>: the same
  pointer for the raw-pointer kind, a distinct object with equal content for
  strings and byte objects, an equal object for the fixed-width kinds.
\<close>

theorem value_load_unload_roundtrip:
  assumes sup: "load_supported ty"
    and r: "release_old h kv ty = Some h0"
    and d: "is_datum h0 ty x"
    and s: "slot_ok h0 ty y"
  shows "\<exists>h1 kv1 h2 y'. prrte_value_load h kv x ty = Some (PRRTE_SUCCESS, h1, kv1)
           \<and> prrte_value_unload h1 kv1 (Some y) ty = Some (PRRTE_SUCCESS, h2, Some y')
           \<and> same_datum ty h0 x h2 y'"
proof -
  consider "ty = PRRTE_STRING" | "ty = PRRTE_BYTE_OBJECT" | "ty = PRRTE_PTR"
    | "ty \<noteq> PRRTE_STRING" "ty \<noteq> PRRTE_BYTE_OBJECT" "ty \<noteq> PRRTE_PTR"
    by blast
  then show ?thesis
  proof cases
    case 1
    then show ?thesis using string_roundtrip[of h kv h0 x y] r d by simp
  next
    case 2
    then show ?thesis using bo_roundtrip[of h kv h0 x y] r d by simp
  next
    case 3
    have h0: "h0 = h" using r 3 by (simp add: release_old_def)
    have "y \<noteq> NULL" using s 3 by (simp add: slot_ok_def)
    from ptr_roundtrip[OF this, of h kv x] obtain kv1 where
      "prrte_value_load h kv x PRRTE_PTR = Some (PRRTE_SUCCESS, h, kv1)"
      "prrte_value_unload h kv1 (Some y) PRRTE_PTR = Some (PRRTE_SUCCESS, h, Some x)"
      by blast
    moreover have "same_datum PRRTE_PTR h x h x" by (simp add: same_datum_def)
    ultimately show ?thesis using 3 h0 by blast
  next
    case 4
    have h0: "h0 = h" using r 4 by (cases ty) (simp_all add: release_old_def)
    from scalar_roundtrip[OF 4 sup, of h x y kv] d s h0 obtain kv1 h2 where
      "prrte_value_load h kv x ty = Some (PRRTE_SUCCESS, h, kv1)"
      "prrte_value_unload h kv1 (Some y) ty = Some (PRRTE_SUCCESS, h2, Some y)"
      "read_cell h2 y = read_cell h x"
      by auto
    moreover have "same_datum ty h x h2 y = (read_cell h2 y = read_cell h x)"
      using 4 by (cases ty) (simp_all add: same_datum_def)
    ultimately show ?thesis using h0 by blast
  qed
qed

theorem value_load_unload_roundtrip_witness:
  "\<exists>h1 kv1 h2 y'.
      prrte_value_load [Some (C_str ''abc'')] \<lparr>key = NULL, type = PRRTE_BOOL, data = U_zero\<rparr>
          (1, 0) PRRTE_STRING = Some (PRRTE_SUCCESS, h1, kv1)
    \<and> prrte_value_unload h1 kv1 (Some NULL) PRRTE_STRING = Some (PRRTE_SUCCESS, h2, Some y')
    \<and> fst y' \<noteq> 1 \<and> read_str h2 y' = Some ''abc''"
proof -
  define h :: heap where "h = [Some (C_str ''abc'')]"
  define kv where "kv = \<lparr>key = NULL, type = PRRTE_BOOL, data = U_zero\<rparr>"
  have a: "load_supported PRRTE_STRING" by (simp add: load_supported_def)
  have b: "release_old h kv PRRTE_STRING = Some h"
    by (simp add: release_old_def kv_def get_string_def free_def)
  have rs: "read_str h (1, 0) = Some ''abc''" by (simp add: read_str_def h_def cell_at_def)
  have c: "is_datum h PRRTE_STRING (1, 0)" using rs by (simp add: is_datum_def)
  have d: "slot_ok h PRRTE_STRING NULL" by (simp add: slot_ok_def)
  from value_load_unload_roundtrip[OF a b c d] obtain h1 kv1 h2 y' where r:
    "prrte_value_load h kv (1, 0) PRRTE_STRING = Some (PRRTE_SUCCESS, h1, kv1)"
    "prrte_value_unload h1 kv1 (Some NULL) PRRTE_STRING = Some (PRRTE_SUCCESS, h2, Some y')"
    "same_datum PRRTE_STRING h (1, 0) h2 y'"
    by blast
  have "prrte_value_load h kv (1, 0) PRRTE_STRING = Some (PRRTE_SUCCESS, h1, kv1)
      \<and> prrte_value_unload h1 kv1 (Some NULL) PRRTE_STRING = Some (PRRTE_SUCCESS, h2, Some y')
      \<and> fst y' \<noteq> 1 \<and> read_str h2 y' = Some ''abc''"
    using r rs by (simp add: same_datum_def)
  then show ?thesis unfolding h_def kv_def by blast
qed

text \<open>
  C9, as stated, fails for a null data argument: with the unsupported tag
  \<open>PRRTE_OTHER 200\<close> and null data the call returns \<open>PRRTE_SUCCESS\<close>, having
  stamped the tag and zeroed the payload.
\<close>

theorem value_load_unsupported_counterexample:
  "prrte_value_load [] \<lparr>key = NULL, type = PRRTE_BOOL, data = U_flag True\<rparr> NULL (PRRTE_OTHER 200)
     = Some (PRRTE_SUCCESS, [], \<lparr>key = NULL, type = PRRTE_OTHER 200, data = U_zero\<rparr>)
   \<and> load_supported (PRRTE_OTHER 200) = False"
  by (simp add: prrte_value_load_def load_supported_def)

text \<open>
  C9, amended. For every value, every heap and every tag without a case label
  in \<open>prrte_value_load\<close>: with non-null data the call returns
  \<open>PRRTE_ERR_NOT_SUPPORTED\<close> and changes only the type tag; with null data it
  returns \<open>PRRTE_SUCCESS\<close>, the tag stamped and the payload zeroed.
\<close>

theorem value_load_unsupported:
  assumes "\<not> load_supported ty"
  shows "prrte_value_load h kv raw ty =
           (if raw = NULL then Some (PRRTE_SUCCESS, h, kv\<lparr>type := ty, data := U_zero\<rparr>)
            else Some (PRRTE_ERR_NOT_SUPPORTED, h, kv\<lparr>type := ty\<rparr>))"
  using assms
  by (cases ty) (simp_all add: load_supported_def prrte_value_load_def Let_def)

theorem value_load_unsupported_witness:
  "prrte_value_load [Some (C_int32 5)] \<lparr>key = NULL, type = PRRTE_BOOL, data = U_flag True\<rparr>
       (1, 0) PRRTE_VPID
     = Some (PRRTE_ERR_NOT_SUPPORTED, [Some (C_int32 5)],
             \<lparr>key = NULL, type = PRRTE_VPID, data = U_flag True\<rparr>)"
  using value_load_unsupported[of PRRTE_VPID "[Some (C_int32 5)]"
          "\<lparr>key = NULL, type = PRRTE_BOOL, data = U_flag True\<rparr>" "(1, 0)"]
  by (simp add: load_supported_def)

text \<open>
  C10. When the tag of \<open>src\<close> has no case label and the key of \<open>src\<close> is null or
  a C string, \<open>prrte_value_xfer\<close> returns \<open>PRRTE_ERR_NOT_SUPPORTED\<close>, and the
  \<open>dest\<close> it leaves carries the tag of \<open>src\<close> and the payload \<open>dest\<close> had before;
  its key is a fresh copy of the key of \<open>src\<close> when that is not null, and the
  key it had otherwise.
\<close>

theorem value_xfer_unsupported:
  assumes un: "\<not> load_supported (type src)"
    and k: "key src = NULL \<or> read_str h (key src) \<noteq> None"
  shows "\<exists>h' d. prrte_value_xfer h dest src = Some (PRRTE_ERR_NOT_SUPPORTED, h', d)
           \<and> type d = type src \<and> data d = data dest
           \<and> (if key src = NULL then key d = key dest \<and> h' = h
               else key d \<noteq> NULL \<and> cell_at h (fst (key d)) = None
                  \<and> read_str h' (key d) = read_str h (key src))"
proof (cases "key src = NULL")
  case True
  then show ?thesis
    using un by (cases "type src") (simp_all add: load_supported_def prrte_value_xfer_def Let_def)
next
  case False
  with k obtain s where s: "read_str h (key src) = Some s" by auto
  from strdup_ok[OF s] obtain p h1 where p:
    "strdup h (key src) = Some (p, h1)" "fst p \<noteq> 0" "cell_at h (fst p) = None"
    "read_str h1 p = Some s"
    by blast
  have "p \<noteq> NULL" using p(2) by auto
  then show ?thesis
    using un False p s
    by (cases "type src") (simp_all add: load_supported_def prrte_value_xfer_def Let_def)
qed

theorem value_xfer_unsupported_witness:
  "\<exists>h' d. prrte_value_xfer [Some (C_str ''k''), Some (C_str ''v'')]
              \<lparr>key = NULL, type = PRRTE_STRING, data = U_string (2, 0)\<rparr>
              \<lparr>key = (1, 0), type = PRRTE_OTHER 7, data = U_int32 5\<rparr>
            = Some (PRRTE_ERR_NOT_SUPPORTED, h', d)
         \<and> type d = PRRTE_OTHER 7 \<and> data d = U_string (2, 0)
         \<and> key d \<noteq> NULL \<and> read_str h' (key d) = Some ''k''"
proof -
  define h :: heap where "h = [Some (C_str ''k''), Some (C_str ''v'')]"
  define src where "src = \<lparr>key = (1, 0), type = PRRTE_OTHER 7, data = U_int32 5\<rparr>"
  define dest where "dest = \<lparr>key = NULL, type = PRRTE_STRING, data = U_string (2, 0)\<rparr>"
  have a: "\<not> load_supported (type src)" by (simp add: src_def load_supported_def)
  have rs: "read_str h (key src) = Some ''k''"
    by (simp add: read_str_def h_def src_def cell_at_def)
  then have b: "key src = NULL \<or> read_str h (key src) \<noteq> None" by simp
  have f: "key src \<noteq> NULL" "type src = PRRTE_OTHER 7" "data dest = U_string (2, 0)"
    by (simp_all add: src_def dest_def)
  from value_xfer_unsupported[OF a b, of dest] f rs obtain h' d where
    "prrte_value_xfer h dest src = Some (PRRTE_ERR_NOT_SUPPORTED, h', d)
       \<and> type d = PRRTE_OTHER 7 \<and> data d = U_string (2, 0)
       \<and> key d \<noteq> NULL \<and> read_str h' (key d) = Some ''k''"
    by auto
  then show ?thesis unfolding h_def src_def dest_def by blast
qed

section \<open>Properties of the launch module\<close>

lemma spawn_loop_argv:
  "spawn_loop e ns (argv[proc_vpid_index e := s]) w = spawn_loop e ns argv w"
proof (induction ns arbitrary: w)
  case Nil
  show ?case by simp
next
  case (Cons a ns)
  show ?case
  proof (cases a)
    case None
    then show ?thesis using Cons by simp
  next
    case (Some node)
    then show ?thesis using Cons by (simp add: Let_def split: option.splits)
  qed
qed

lemma spawn_loop_append:
  "spawn_loop e (pre @ rest) argv w =
     (case spawn_loop e pre argv w of
        (Spawned, w1) \<Rightarrow> spawn_loop e rest argv w1
      | r \<Rightarrow> r)"
proof (induction pre arbitrary: w)
  case Nil
  show ?case by simp
next
  case (Cons a pre)
  show ?case
  proof (cases a)
    case None
    then show ?thesis using Cons by simp
  next
    case (Some node)
    then show ?thesis
      using Cons by (simp add: Let_def spawn_loop_argv split: option.splits)
  qed
qed

lemma spawn_loop_frame:
  "spawn_loop e ns argv w = (r, w') \<Longrightarrow>
     jobs w' = jobs w \<and> activated w' = activated w \<and> connected w' = connected w
     \<and> tm_inits w' = tm_inits w \<and> polled w' = polled w \<and> exited w' = exited w
     \<and> (\<exists>cs. spawned w' = spawned w @ cs
              \<and> (r = Spawned \<longrightarrow> launched w' = launched w + int (length cs) \<and> shown w' = shown w))"
proof (induction ns arbitrary: w)
  case Nil
  then show ?case by auto
next
  case (Cons a ns)
  show ?case
  proof (cases a)
    case None
    then show ?thesis using Cons by simp
  next
    case (Some node)
    show ?thesis
    proof (cases "daemon_launched node")
      case True
      then show ?thesis using Cons Some by simp
    next
      case nl: False
      show ?thesis
      proof (cases "convert_vpid e (daemon_rank node)")
        case None
        then show ?thesis using Cons.prems Some nl by auto
      next
        case vs: (Some vs)
        show ?thesis
        proof (cases "launch_id node")
          case None
          then show ?thesis using Cons.prems Some nl vs by (auto simp: Let_def)
        next
          case l: (Some l)
          define call where "call = \<lparr>sp_argv = argv[proc_vpid_index e := vs], sp_where = l,
                                      sp_slot = launched w\<rparr>"
          define w1 where "w1 = w\<lparr>spawned := spawned w @ [call]\<rparr>"
          show ?thesis
          proof (cases "tm_spawn e (length (spawned w)) call = TM_SUCCESS")
            case False
            then show ?thesis
              using Cons.prems Some nl vs l by (auto simp: Let_def call_def)
          next
            case True
            have rec: "spawn_loop e ns argv (w1\<lparr>launched := launched w1 + 1\<rparr>) = (r, w')"
              using Cons.prems Some nl vs l True
              by (simp add: Let_def call_def w1_def spawn_loop_argv)
            from Cons.IH[OF rec] show ?thesis
              by (auto simp: w1_def)
          qed
        qed
      qed
    qed
  qed
qed

lemma tm_connect_loop_frame:
  "tm_connect_loop e k w = (r, w') \<Longrightarrow>
     jobs w' = jobs w \<and> activated w' = activated w \<and> connected w' = connected w
     \<and> spawned w' = spawned w \<and> launched w' = launched w \<and> polled w' = polled w
     \<and> shown w' = shown w \<and> exited w' = exited w"
  by (induction k arbitrary: w) (auto simp: Let_def split: if_splits)

lemma ensure_connected_frame:
  "ensure_connected e w = (ok, w') \<Longrightarrow>
     jobs w' = jobs w \<and> activated w' = activated w
     \<and> spawned w' = spawned w \<and> launched w' = launched w \<and> polled w' = polled w
     \<and> shown w' = shown w \<and> exited w' = exited w"
  by (auto simp: ensure_connected_def plm_tm_connect_def split: if_splits prod.splits
      dest: tm_connect_loop_frame)





text \<open>
  C2. The handler reaches the node loop (the job is no debugger-daemon job,
  the virtual machine is set up, launching is wanted, the map has new
  daemons, the handle arrays are allocated, TM is connected), the nodes before
  \<open>node\<close> are passed without failure, and at \<open>node\<close> either the launch id is
  not found or \<open>tm_spawn\<close> fails. Then the handler returns the state the loop
  had reached at \<open>node\<close>, with these changes only: the failing \<open>tm_spawn\<close> call
  (if the launch id was found) is the last spawn issued, whatever nodes
  follow; the message names the node and its launch id (0 when not found);
  "failed to start" is activated for the daemon job. The spawns issued before
  stay issued and counted in \<open>launched\<close>, and no job object is changed. The
  handler returns nothing but the state: there is no status to return.
\<close>

theorem launch_daemons_spawn_failure:
  assumes nd: "\<not> flag_debugger_daemon (jobs w jdata)"
    and vm: "setup_virtual_machine e (jobs w) jdata = (PRTE_SUCCESS, js)"
    and dnl: "\<not> do_not_launch (js (my_job e))"
    and mp: "job_map (js (my_job e)) = Some m"
    and nn: "num_new_daemons m \<noteq> 0"
    and al: "events_alloc_ok e" "task_ids_alloc_ok e"
    and cn: "ensure_connected e (w\<lparr>jobs := js\<rparr>) = (True, w2)"
    and ns: "nodes m = pre @ Some node # post"
    and pre: "spawn_loop e pre (prted_argv e) w2 = (Spawned, w3)"
    and nl: "\<not> daemon_launched node"
    and cv: "convert_vpid e (daemon_rank node) = Some vpid_string"
    and av: "argv = (prted_argv e)[proc_vpid_index e := vpid_string]"
    and fl: "case launch_id node of
               None \<Rightarrow> True
             | Some l \<Rightarrow> tm_spawn e (length (spawned w3))
                           \<lparr>sp_argv = argv, sp_where = l, sp_slot = launched w3\<rparr> \<noteq> TM_SUCCESS"
  shows "launch_daemons e jdata w =
           w3\<lparr>spawned := spawned w3 @
                 (case launch_id node of
                    None \<Rightarrow> []
                  | Some l \<Rightarrow> [\<lparr>sp_argv = argv, sp_where = l, sp_slot = launched w3\<rparr>]),
               shown := shown w3 @
                 [(argv0 argv, node_name node, case launch_id node of None \<Rightarrow> 0 | Some l \<Rightarrow> l)],
               activated := activated w @ [(my_job e, PRTE_JOB_STATE_FAILED_TO_START)]\<rparr>
       \<and> jobs w3 = js \<and> exited w3 = exited w
       \<and> (\<exists>cs. spawned w3 = spawned w @ cs \<and> launched w3 = launched w + int (length cs))"
proof -
  note f2 = ensure_connected_frame[OF cn] and f3 = spawn_loop_frame[OF pre]
  have one: "spawn_loop e (Some node # post) (prted_argv e) w3 =
          (Failed, w3\<lparr>spawned := spawned w3 @
                 (case launch_id node of
                    None \<Rightarrow> []
                  | Some l \<Rightarrow> [\<lparr>sp_argv = argv, sp_where = l, sp_slot = launched w3\<rparr>]),
               shown := shown w3 @
                 [(argv0 argv, node_name node, case launch_id node of None \<Rightarrow> 0 | Some l \<Rightarrow> l)]\<rparr>)"
    using nl cv fl by (cases "launch_id node") (simp_all add: Let_def av)
  have lp: "spawn_loop e (nodes m) (prted_argv e) w2 =
          (Failed, w3\<lparr>spawned := spawned w3 @
                 (case launch_id node of
                    None \<Rightarrow> []
                  | Some l \<Rightarrow> [\<lparr>sp_argv = argv, sp_where = l, sp_slot = launched w3\<rparr>]),
               shown := shown w3 @
                 [(argv0 argv, node_name node, case launch_id node of None \<Rightarrow> 0 | Some l \<Rightarrow> l)]\<rparr>)"
    unfolding ns spawn_loop_append[of e pre] pre using one by simp
  have act: "activated w3 = activated w" using f2 f3 by simp
  have "launch_daemons e jdata w =
           w3\<lparr>spawned := spawned w3 @
                 (case launch_id node of
                    None \<Rightarrow> []
                  | Some l \<Rightarrow> [\<lparr>sp_argv = argv, sp_where = l, sp_slot = launched w3\<rparr>]),
               shown := shown w3 @
                 [(argv0 argv, node_name node, case launch_id node of None \<Rightarrow> 0 | Some l \<Rightarrow> l)],
               activated := activated w @ [(my_job e, PRTE_JOB_STATE_FAILED_TO_START)]\<rparr>"
    using nd vm dnl mp nn al cn lp act
    by (simp add: launch_daemons_def Let_def cleanup_def)
  moreover have "jobs w3 = js" "exited w3 = exited w" using f2 f3 by simp_all
  moreover have "\<exists>cs. spawned w3 = spawned w @ cs \<and> launched w3 = launched w + int (length cs)"
    using f2 f3 by auto
  ultimately show ?thesis by blast
qed

theorem launch_daemons_spawn_failure_witness:
  "spawned (launch_daemons (ex_env PRTE_SUCCESS (\<lambda>k. if k = 1 then TM_ERR 17 else TM_SUCCESS)
                              (\<lambda>k. (TM_SUCCESS, TM_SUCCESS))) 1
              (ex_world (ex_job False ex_map3) 0))
     = [\<lparr>sp_argv = [''prted'', ''1''], sp_where = 10, sp_slot = 0\<rparr>,
        \<lparr>sp_argv = [''prted'', ''2''], sp_where = 20, sp_slot = 1\<rparr>]
   \<and> shown (launch_daemons (ex_env PRTE_SUCCESS (\<lambda>k. if k = 1 then TM_ERR 17 else TM_SUCCESS)
                              (\<lambda>k. (TM_SUCCESS, TM_SUCCESS))) 1
              (ex_world (ex_job False ex_map3) 0))
     = [(''prted'', ''n2'', 20)]
   \<and> activated (launch_daemons (ex_env PRTE_SUCCESS (\<lambda>k. if k = 1 then TM_ERR 17 else TM_SUCCESS)
                              (\<lambda>k. (TM_SUCCESS, TM_SUCCESS))) 1
              (ex_world (ex_job False ex_map3) 0))
     = [(2, PRTE_JOB_STATE_FAILED_TO_START)]
   \<and> launched (launch_daemons (ex_env PRTE_SUCCESS (\<lambda>k. if k = 1 then TM_ERR 17 else TM_SUCCESS)
                              (\<lambda>k. (TM_SUCCESS, TM_SUCCESS))) 1
              (ex_world (ex_job False ex_map3) 0))
     = 1"
proof -
  define e where "e = ex_env PRTE_SUCCESS (\<lambda>k. if k = 1 then TM_ERR 17 else TM_SUCCESS)
                              (\<lambda>k. (TM_SUCCESS, TM_SUCCESS))"
  define w where "w = ex_world (ex_job False ex_map3) 0"
  define w3 where "w3 = w\<lparr>spawned := [\<lparr>sp_argv = [''prted'', ''1''], sp_where = 10, sp_slot = 0\<rparr>],
                          launched := 1\<rparr>"
  have a: "\<not> flag_debugger_daemon (jobs w 1)" by (simp add: w_def ex_world_def ex_job_def)
  have b: "setup_virtual_machine e (jobs w) 1 = (PRTE_SUCCESS, jobs w)" by (simp add: e_def ex_env_def)
  have c: "\<not> do_not_launch (jobs w (my_job e))" by (simp add: w_def ex_world_def ex_job_def)
  have d: "job_map (jobs w (my_job e)) = Some ex_map3" by (simp add: w_def ex_world_def ex_job_def)
  have f: "num_new_daemons ex_map3 \<noteq> 0" by (simp add: ex_map3_def)
  have g: "events_alloc_ok e" "task_ids_alloc_ok e" by (simp_all add: e_def ex_env_def)
  have i: "ensure_connected e (w\<lparr>jobs := jobs w\<rparr>) = (True, w)"
    by (simp add: ensure_connected_def w_def ex_world_def)
  have j: "nodes ex_map3 = [Some (ex_node ''n1'' 1 10)] @ Some (ex_node ''n2'' 2 20)
                              # [Some (ex_node ''n3'' 3 30)]"
    by (simp add: ex_map3_def)
  have k: "spawn_loop e [Some (ex_node ''n1'' 1 10)] (prted_argv e) w = (Spawned, w3)"
    by (simp add: e_def ex_env_def ex_node_def w_def ex_world_def w3_def Let_def)
  have l: "\<not> daemon_launched (ex_node ''n2'' 2 20)" by (simp add: ex_node_def)
  have m: "convert_vpid e (daemon_rank (ex_node ''n2'' 2 20)) = Some ''2''"
    by (simp add: e_def ex_env_def ex_node_def)
  have n: "[''prted'', ''2''] = (prted_argv e)[proc_vpid_index e := ''2'']"
    by (simp add: e_def ex_env_def)
  have p: "case launch_id (ex_node ''n2'' 2 20) of
               None \<Rightarrow> True
             | Some l \<Rightarrow> tm_spawn e (length (spawned w3))
                           \<lparr>sp_argv = [''prted'', ''2''], sp_where = l, sp_slot = launched w3\<rparr>
                         \<noteq> TM_SUCCESS"
    by (simp add: ex_node_def e_def ex_env_def w3_def)
  from launch_daemons_spawn_failure[OF a b c d f g i j k l m n p]
  have r: "launch_daemons e 1 w =
             w3\<lparr>spawned := spawned w3 @ [\<lparr>sp_argv = [''prted'', ''2''], sp_where = 20,
                                           sp_slot = launched w3\<rparr>],
                 shown := shown w3 @ [(argv0 [''prted'', ''2''], ''n2'', 20)],
                 activated := activated w @ [(my_job e, PRTE_JOB_STATE_FAILED_TO_START)]\<rparr>"
    by (simp add: ex_node_def)
  show ?thesis
    unfolding e_def[symmetric] w_def[symmetric] r
    by (simp add: w3_def w_def ex_world_def argv0_def e_def ex_env_def)
qed

text \<open>
  C3, as stated, fails when setting up the virtual machine fails: the job and
  the daemon job have the do-not-launch attribute and an empty map with no
  new daemons, and still the job keeps its state and "failed to start" is
  activated for the daemon job.
\<close>

theorem launch_daemons_claim_counterexample:
  "do_not_launch (jobs (ex_world (ex_job True \<lparr>nodes = [], num_new_daemons = 0\<rparr>) 0) 1)
   \<and> do_not_launch (jobs (ex_world (ex_job True \<lparr>nodes = [], num_new_daemons = 0\<rparr>) 0) 2)
   \<and> job_state (jobs (launch_daemons (ex_env PRTE_ERROR (\<lambda>k. TM_SUCCESS)
                                          (\<lambda>k. (TM_SUCCESS, TM_SUCCESS))) 1
                          (ex_world (ex_job True \<lparr>nodes = [], num_new_daemons = 0\<rparr>) 0)) 1)
       = PRTE_JOB_STATE_LAUNCH_DAEMONS
   \<and> activated (launch_daemons (ex_env PRTE_ERROR (\<lambda>k. TM_SUCCESS)
                                  (\<lambda>k. (TM_SUCCESS, TM_SUCCESS))) 1
                   (ex_world (ex_job True \<lparr>nodes = [], num_new_daemons = 0\<rparr>) 0))
       = [(2, PRTE_JOB_STATE_FAILED_TO_START)]"
  by (simp add: launch_daemons_def ex_env_def ex_world_def ex_job_def cleanup_def Let_def)

text \<open>
  C3, amended. If the job is a debugger-daemon job, or if the virtual machine
  is set up successfully and then the daemon job has the do-not-launch
  attribute or a map whose new-daemon count is zero, the handler issues no
  spawn, sets the job's state to "daemons launched" and activates "daemons
  reported" for it.
\<close>

theorem launch_daemons_short_circuit:
  assumes "flag_debugger_daemon (jobs w jdata)
           \<or> (setup_virtual_machine e (jobs w) jdata = (PRTE_SUCCESS, js)
              \<and> (do_not_launch (js (my_job e))
                 \<or> (\<exists>m. job_map (js (my_job e)) = Some m \<and> num_new_daemons m = 0)))"
  shows "spawned (launch_daemons e jdata w) = spawned w
       \<and> job_state (jobs (launch_daemons e jdata w) jdata) = PRTE_JOB_STATE_DAEMONS_LAUNCHED
       \<and> activated (launch_daemons e jdata w)
           = activated w @ [(jdata, PRTE_JOB_STATE_DAEMONS_REPORTED)]"
  using assms
  by (auto simp: launch_daemons_def daemons_reported_def Let_def)

theorem launch_daemons_short_circuit_witness:
  "spawned (launch_daemons (ex_env PRTE_SUCCESS (\<lambda>k. TM_SUCCESS) (\<lambda>k. (TM_SUCCESS, TM_SUCCESS))) 1
              (ex_world (ex_job True ex_map3) 0)) = []
   \<and> job_state (jobs (launch_daemons (ex_env PRTE_SUCCESS (\<lambda>k. TM_SUCCESS)
                                          (\<lambda>k. (TM_SUCCESS, TM_SUCCESS))) 1
                          (ex_world (ex_job True ex_map3) 0)) 1)
       = PRTE_JOB_STATE_DAEMONS_LAUNCHED
   \<and> activated (launch_daemons (ex_env PRTE_SUCCESS (\<lambda>k. TM_SUCCESS)
                                  (\<lambda>k. (TM_SUCCESS, TM_SUCCESS))) 1
                   (ex_world (ex_job True ex_map3) 0))
       = [(1, PRTE_JOB_STATE_DAEMONS_REPORTED)]"
  using launch_daemons_short_circuit[of "ex_world (ex_job True ex_map3) 0" 1
          "ex_env PRTE_SUCCESS (\<lambda>k. TM_SUCCESS) (\<lambda>k. (TM_SUCCESS, TM_SUCCESS))"
          "\<lambda>_. ex_job True ex_map3"]
  by (simp add: ex_world_def ex_env_def ex_job_def)




end
